theory Spec2Isabelle
  imports Main "HOL-Library.Sublist" "HOL-Library.AList"
begin

section \<open>Python strings: strip and split\<close>

text \<open>
  A Python \<open>str\<close> is modelled as a HOL \<open>string\<close>, each \<open>char\<close> standing for the code
  point of the same number (code points below 256). \<open>str.isspace\<close> holds for exactly twelve
  of these code points: tab, line feed, vertical tab, form feed, carriage return, the four
  separators 28 to 31, space, next line (133) and no-break space (160).
\<close>

definition py_isspace :: "char \<Rightarrow> bool" where
  "py_isspace c = (of_char c \<in> set [9, 10, 11, 12, 13, 28, 29, 30, 31, 32, 133, 160 :: nat])"

text \<open>\<open>s.strip()\<close>: leading and trailing whitespace removed.\<close>

definition py_strip :: "string \<Rightarrow> string" where
  "py_strip s = rev (dropWhile py_isspace (rev (dropWhile py_isspace s)))"

text \<open>
  The leftmost occurrence of \<open>sep\<close> in a string: the text before it and the text after it,
  or \<open>None\<close> when \<open>sep\<close> does not occur. The scan tries each position from the left, as
  \<open>str.split\<close> does.
\<close>

fun find_sep :: "string \<Rightarrow> string \<Rightarrow> (string \<times> string) option" where
  "find_sep sep [] = (if sep = [] then Some ([], []) else None)"
| "find_sep sep (c # cs) =
     (if prefix sep (c # cs) then Some ([], drop (length sep) (c # cs))
      else map_option (\<lambda>(a, b). (c # a, b)) (find_sep sep cs))"

text \<open>\<open>s.split(sep, 1)\<close>: at most one split, at the leftmost occurrence.\<close>

definition py_split1 :: "string \<Rightarrow> string \<Rightarrow> string list" where
  "py_split1 sep s = (case find_sep sep s of None \<Rightarrow> [s] | Some (a, b) \<Rightarrow> [a, b])"

text \<open>The separator line between the two sides of a card, \<open>'\n---\n'\<close>.\<close>

definition separator :: string where
  "separator = [CHR 0x0A, CHR ''-'', CHR ''-'', CHR ''-'', CHR 0x0A]"

section \<open>Card content\<close>

text \<open>
  \<open>Deck.add_card\<close> and \<open>Deck.update_card\<close> build the content of a card as
  \<open>f"{front}\n---\n{back}"\<close>.
\<close>

definition card_content :: "string \<Rightarrow> string \<Rightarrow> string" where
  "card_content front back = front @ separator @ back"

record condensed_card =
  front :: string
  "back" :: string

text \<open>
  The condensed projection of one content string, the body of the loop in
  \<open>MochiAPI.get_cards\<close> and in \<open>Deck.get_cards\<close>:
  \<^verbatim>\<open>
  parts = content_string.split('\n---\n', 1)
  front = parts[0].strip() if len(parts) > 0 else content_string.strip()
  back = parts[1].strip() if len(parts) > 1 else ""
  \<close>
\<close>

definition condense :: "string \<Rightarrow> condensed_card" where
  "condense content_string =
     (let parts = py_split1 separator content_string
      in \<lparr>front = (if length parts > 0 then py_strip (parts ! 0) else py_strip content_string),
          back = (if length parts > 1 then py_strip (parts ! 1) else [])\<rparr>)"

section \<open>JSON values\<close>

text \<open>
  What the transport decodes from a response body. Numbers are the integers of JSON;
  floating-point numbers are outside the model. \<open>JObj\<close> lists the items of the decoded
  dict, \<open>JNull\<close> is Python's \<open>None\<close>.
\<close>

datatype json =
    JNull
  | JBool bool
  | JInt int
  | JStr string
  | JList "json list"
  | JObj "(string \<times> json) list"

text \<open>Python truthiness, as \<open>not x\<close> and \<open>x or y\<close> test it.\<close>

fun truthy :: "json \<Rightarrow> bool" where
  "truthy JNull = False"
| "truthy (JBool b) = b"
| "truthy (JInt n) = (n \<noteq> 0)"
| "truthy (JStr s) = (s \<noteq> [])"
| "truthy (JList xs) = (xs \<noteq> [])"
| "truthy (JObj kvs) = (kvs \<noteq> [])"

definition py_or :: "json \<Rightarrow> json \<Rightarrow> json" where
  "py_or a b = (if truthy a then a else b)"

text \<open>\<open>d.get(k)\<close>: the value, \<open>None\<close> when the key is absent.\<close>

definition dict_get :: "(string \<times> json) list \<Rightarrow> string \<Rightarrow> json" where
  "dict_get d k = (case map_of d k of None \<Rightarrow> JNull | Some v \<Rightarrow> v)"

text \<open>\<open>k in d\<close> for a decoded dict.\<close>

definition has_key :: "(string \<times> json) list \<Rightarrow> string \<Rightarrow> bool" where
  "has_key d k = (map_of d k \<noteq> None)"

fun is_str :: "json \<Rightarrow> bool" where
  "is_str (JStr s) = True"
| "is_str j = False"

section \<open>Decks and the deck cache\<close>

text \<open>
  \<open>Deck.__init__(api, deck_id: str, name: str, parent_id: Optional[str])\<close>. The field
  \<open>id\<close> is written \<open>id'\<close>. The back reference \<open>api\<close> is passed to each method instead.
\<close>

record Deck =
  id' :: string
  name :: string
  parent_id :: "string option"

text \<open>
  A value of the cache \<open>Dict[str, Union[Deck, List[Deck]]]\<close>: one deck, or the list of the
  decks that share the name. The dict is its list of items in insertion order, which is the
  order \<open>keys()\<close> and \<open>values()\<close> iterate in; \<open>map_of\<close> looks a key up and
  \<open>AList.update\<close> assigns to a key (in place when the key exists, at the end otherwise).
\<close>

datatype deck_or_list = One Deck | Many "Deck list"

type_synonym deck_map = "(string \<times> deck_or_list) list"

record MochiAPI =
  auth :: "string \<times> string"
  decks :: deck_map

section \<open>Exceptions and printed lines\<close>

text \<open>
  An exception is its class and its arguments. A message is the f-string that builds it,
  with the values it interpolates; how Python renders them into text is not modelled.
  \<open>MochiAPIError\<close> carries the message, \<open>status_code\<close> and \<open>response_data\<close>.
  \<open>IllTyped\<close> is not a Python exception: it marks a response whose deck id or name is a
  JSON value other than a string (or, where a deck is built from a creation response, whose
  parent is neither a string nor absent), which the annotations of \<open>Deck\<close> exclude and
  the model does not follow further.
\<close>

datatype detail = NoDetail | Detail json | DetailText string

datatype exc =
    ValueError message
  | AttributeError
  | MochiAPIError message "int option" "json option"
  | IllTyped
and message =
    ApiKeyRequired
      \<comment> \<open>Mochi API key must be provided as a non-empty string.\<close>
  | HTTPErrorCalling string string detail
      \<comment> \<open>HTTP Error calling (method) (url), then the detail if any\<close>
  | RequestTimedOut string string
      \<comment> \<open>Request timed out after ?s calling (method) (url)\<close>
  | NetworkError string string
      \<comment> \<open>Network or Request Error calling (method) (url): (req_err)\<close>
  | JSONParseFailed string string string
      \<comment> \<open>Failed to parse JSON response from (method) (url). Response text: (text[:500])...\<close>
  | FailedToLoadDecks exc
      \<comment> \<open>Failed to load decks during initialization: (e)\<close>
  | UnexpectedDecksFormat json
      \<comment> \<open>Unexpected format when listing decks: Expected dict with 'docs', got ...\<close>
  | DocsNotAList json
      \<comment> \<open>Expected 'docs' field to contain a list of decks, got ...\<close>
  | NoDeckWithName string "string list"
      \<comment> \<open>No deck found with name (name) in local cache. Available names: (names). ...\<close>
  | MultipleDecksWithName string "string list"
      \<comment> \<open>Multiple decks found with name (name). IDs: (deck_ids). Cannot uniquely ...\<close>
  | ExpectedDictForCreated
      \<comment> \<open>Expected dictionary for created deck\<close>
  | CreatedMissingIdOrName
      \<comment> \<open>Created deck response missing 'id' or 'name'\<close>
  | FailedToCreateDeck string exc
      \<comment> \<open>Failed to create deck (name): (e)\<close>
  | UnexpectedCreatingDeck string exc
      \<comment> \<open>An unexpected error occurred while creating deck (name): (e)\<close>
  | NoDeckFoundWithID string
      \<comment> \<open>Failed to delete deck: No deck found with ID (deck_id) (Error 404)\<close>
  | FailedToDeleteDeck string exc
      \<comment> \<open>Failed to delete deck ID (deck_id): (e)\<close>
  | UnexpectedDeletingDeck string exc
      \<comment> \<open>An unexpected error occurred while deleting deck ID (deck_id): (e)\<close>
  | NoCardFoundWithID string
      \<comment> \<open>Failed to delete card: No card found with ID (card_id) (Error 404)\<close>
  | FailedToDeleteCard string exc
      \<comment> \<open>Failed to delete card ID (card_id): (e)\<close>
  | UnexpectedDeletingCard string exc
      \<comment> \<open>An unexpected error occurred while deleting card ID (card_id): (e)\<close>
  | FailedToCreateCard string exc
      \<comment> \<open>Failed to create card in deck ID (deck_id): (e)\<close>
  | UnexpectedCreatingCard string exc
      \<comment> \<open>An unexpected error occurred creating card in deck ID (deck_id): (e)\<close>
  | FailedToUpdateCard string exc
      \<comment> \<open>Failed to update card (card_id): (e)\<close>
  | UnexpectedUpdatingCard string exc
      \<comment> \<open>An unexpected error occurred while trying to update card (card_id): (e)\<close>
  | MatchesMultipleDecks string "string list"
      \<comment> \<open>Input (deck_name_or_id) matches multiple decks by name. IDs: (deck_ids). Use a specific ID.\<close>
  | NoDeckWithNameOrID string nat nat
      \<comment> \<open>No deck found with name or ID (deck_name_or_id) in cache. Checked (n) names, (m) IDs. ...\<close>
  | CardsDocsNotAList string string
      \<comment> \<open>API response for cards in deck (deck_name_or_id) (ID: (id)) had 'docs' but it wasn't a list.\<close>
  | UnexpectedCardsFormat string string
      \<comment> \<open>Unexpected response format listing cards for deck (deck_name_or_id) (ID: (id)). ...\<close>
  | FailedToGetCards string "string option" string exc
      \<comment> \<open>Failed to get cards for deck (deck_name_or_id) (resolution_info): (e)\<close>
  | UnexpectedGettingCards string "string option" string exc
      \<comment> \<open>An unexpected error occurred getting cards for deck (deck_name_or_id) (resolution_info): (e)\<close>
  | FailedToGetCardsForDeck string string exc
      \<comment> \<open>Failed to get cards for deck (name) (ID: (id)): (e)\<close>
  | UnexpectedGettingCardsForDeck string string exc
      \<comment> \<open>An unexpected error occurred while getting cards for deck (name) (ID: (id)): (e)\<close>

text \<open>The class of an exception, which is what an \<open>except\<close> clause tests.\<close>

datatype exc_class = ValueError_class | AttributeError_class | MochiAPIError_class | IllTyped_class

fun class_of :: "exc \<Rightarrow> exc_class" where
  "class_of (ValueError m) = ValueError_class"
| "class_of AttributeError = AttributeError_class"
| "class_of (MochiAPIError m sc rd) = MochiAPIError_class"
| "class_of IllTyped = IllTyped_class"

text \<open>The class of what a call raised, if it raised.\<close>

definition raised_class :: "exc + 'a \<Rightarrow> exc_class option" where
  "raised_class r = (case r of Inl e \<Rightarrow> Some (class_of e) | Inr v \<Rightarrow> None)"

text \<open>
  The two handlers that close most methods:
  \<^verbatim>\<open>
  except MochiAPIError as e:
      raise MochiAPIError(f"Failed to ...: {e}", e.status_code, e.response_data) from e
  except Exception as e:
      raise MochiAPIError(f"An unexpected error occurred ...: {e}") from e
  \<close>
\<close>

fun reraise :: "(exc \<Rightarrow> message) \<Rightarrow> (exc \<Rightarrow> message) \<Rightarrow> exc \<Rightarrow> exc" where
  "reraise failed unexpected (MochiAPIError m sc rd) =
     MochiAPIError (failed (MochiAPIError m sc rd)) sc rd"
| "reraise failed unexpected IllTyped = IllTyped"
| "reraise failed unexpected e = MochiAPIError (unexpected e) None None"

text \<open>A lone \<open>except MochiAPIError as e\<close>: any other exception passes through.\<close>

fun reraise_api :: "(exc \<Rightarrow> message) \<Rightarrow> exc \<Rightarrow> exc" where
  "reraise_api failed (MochiAPIError m sc rd) =
     MochiAPIError (failed (MochiAPIError m sc rd)) sc rd"
| "reraise_api failed e = e"

text \<open>The lines the methods print, one constructor for each \<open>print\<close> of the source.\<close>

datatype printed =
    LoadingDecks
  | WarnDirectList
  | WarnInvalidEntry json
  | WarnNonStringParent json json json
  | WarnMissingIdOrName json
  | LoadedDecks nat
  | RefreshingCache
  | Initialized nat
  | AttemptCreateDeck string
  | CreatedRefreshing json string
  | CacheRefreshed
  | WarnNotRetrieved string exc
  | AttemptDeleteDeck string
  | DeletedDeckRefreshing string
  | AttemptDeleteCard string
  | DeletedCard string
  | WarnDirectCardList string

section \<open>The transport\<close>

text \<open>
  What \<open>requests.request\<close> gives back: a response, or one of the exceptions
  \<open>_make_request\<close> handles. Of a response the model keeps the status code, the
  \<open>Content-Type\<close> header (empty when absent), the body text (empty exactly when
  \<open>response.content\<close> is), and what \<open>response.json()\<close> returns (\<open>None\<close> when it raises).
\<close>

record response =
  status_code :: int
  content_type :: string
  text' :: string
  json_body :: "json option"

datatype http_outcome = Responded response | Timeout | RequestException

text \<open>
  The remote service is a parameter: a function from the request (method, url, JSON body)
  and the state of the service to the outcome and the next state. The world is the state of
  the service and what was printed so far.
\<close>

type_synonym 'w transport = "string \<Rightarrow> string \<Rightarrow> json option \<Rightarrow> 'w \<Rightarrow> http_outcome \<times> 'w"

record 'w world =
  net :: 'w
  stdout :: "printed list"

definition print_line :: "printed \<Rightarrow> 'w world \<Rightarrow> 'w world" where
  "print_line p wld = wld\<lparr>stdout := stdout wld @ [p]\<rparr>"

text \<open>
  \<open>response.raise_for_status()\<close> raises \<open>HTTPError\<close> for a status from 400 to 599, and
  \<open>Response.__bool__\<close> returns \<open>self.ok\<close>, which is false exactly when
  \<open>raise_for_status\<close> raises.
\<close>

definition raises_for_status :: "response \<Rightarrow> bool" where
  "raises_for_status r = (400 \<le> status_code r \<and> status_code r < 600)"

definition response_bool :: "response \<Rightarrow> bool" where
  "response_bool r = (\<not> raises_for_status r)"

text \<open>
  The handler of \<open>HTTPError\<close> in \<open>_make_request\<close>, entered when
  \<open>raise_for_status\<close> has raised on the response:
  \<^verbatim>\<open>
  status_code = response.status_code if response else None
  response_data = None
  error_message = f"HTTP Error calling {method} {url}"
  if response is not None and 'application/json' in response.headers.get('Content-Type', ''):
      try:
          response_data = response.json()
          if isinstance(response_data, dict) and 'errors' in response_data: ...
          elif isinstance(response_data, dict) and 'message' in response_data: ...
      except ValueError:
          error_message += f": {response.text}"
  elif response is not None:
      error_message += f": {response.text}"
  raise MochiAPIError(error_message, status_code=status_code,
                      response_data=response_data or response.text if response else None)
  \<close>
\<close>

definition http_error :: "string \<Rightarrow> string \<Rightarrow> response \<Rightarrow> exc" where
  "http_error method url r =
     (let status = (if response_bool r then Some (status_code r) else None);
          (response_data, det) =
            (if sublist ''application/json'' (content_type r) then
               (case json_body r of
                  None \<Rightarrow> (None, DetailText (text' r))
                | Some j \<Rightarrow>
                    (Some j,
                     (case j of
                        JObj d \<Rightarrow>
                          if has_key d ''errors'' then Detail (dict_get d ''errors'')
                          else if has_key d ''message'' then Detail (dict_get d ''message'')
                          else NoDetail
                      | _ \<Rightarrow> NoDetail)))
             else (None, DetailText (text' r)))
      in MochiAPIError (HTTPErrorCalling method url det) status
           (if response_bool r
            then Some (case response_data of
                         None \<Rightarrow> JStr (text' r)
                       | Some j \<Rightarrow> if truthy j then j else JStr (text' r))
            else None))"

definition base_url :: string where
  "base_url = ''https://app.mochi.cards/api/''"

definition slash :: char where
  "slash = CHR ''/''"

text \<open>
  \<open>_make_request\<close>. The url is \<open>base_url.rstrip('/') + '/' + endpoint.lstrip('/')\<close>.
  A body that does not decode raises inside \<open>response.json()\<close>; which of the last two
  handlers words the message depends on the version of the library, and both raise
  \<open>MochiAPIError\<close> with no status code and no response data.
\<close>

definition make_request ::
    "'w transport \<Rightarrow> string \<Rightarrow> string \<Rightarrow> json option \<Rightarrow> 'w world \<Rightarrow> (exc + json) \<times> 'w world" where
  "make_request tr method endpoint data wld =
     (let url = rev (dropWhile (\<lambda>c. c = slash) (rev base_url)) @ [slash]
                  @ dropWhile (\<lambda>c. c = slash) endpoint;
          (outcome, n) = tr method url data (net wld);
          wld' = wld\<lparr>net := n\<rparr>
      in (case outcome of
            Timeout \<Rightarrow> (Inl (MochiAPIError (RequestTimedOut method url) None None), wld')
          | RequestException \<Rightarrow> (Inl (MochiAPIError (NetworkError method url) None None), wld')
          | Responded r \<Rightarrow>
              if raises_for_status r then (Inl (http_error method url r), wld')
              else if status_code r = 204 \<or> text' r = [] then (Inr (JObj []), wld')
              else (case json_body r of
                      None \<Rightarrow>
                        (Inl (MochiAPIError (JSONParseFailed method url (take 500 (text' r)))
                                None None), wld')
                    | Some j \<Rightarrow> (Inr j, wld'))))"

section \<open>Loading the deck cache\<close>

record loop_state =
  deck_map :: deck_map
  count :: nat
  warnings :: "printed list"

text \<open>
  The grouping at the end of the loop body of \<open>_load_decks_internal\<close>:
  \<^verbatim>\<open>
  if deck_name in deck_map:
      existing = deck_map[deck_name]
      if isinstance(existing, Deck):
          deck_map[deck_name] = [existing, deck_obj]
      elif isinstance(existing, list):
          existing.append(deck_obj)
  else:
      deck_map[deck_name] = deck_obj
  \<close>
\<close>

definition add_deck :: "Deck \<Rightarrow> deck_map \<Rightarrow> deck_map" where
  "add_deck deck_obj m =
     (case map_of m (name deck_obj) of
        Some (One existing) \<Rightarrow> AList.update (name deck_obj) (Many [existing, deck_obj]) m
      | Some (Many existing) \<Rightarrow> AList.update (name deck_obj) (Many (existing @ [deck_obj])) m
      | None \<Rightarrow> AList.update (name deck_obj) (One deck_obj) m)"

text \<open>
  What one entry of the listing contributes: nothing when it is skipped (with the lines the
  loop prints on the way), a deck when it is accepted.
  \<^verbatim>\<open>
  if not isinstance(deck_data, dict):
      print(f"Warning: Skipping invalid deck entry: {deck_data}")
      continue
  deck_id = deck_data.get('id') or deck_data.get('_id')
  deck_name = deck_data.get('name')
  parent_id = deck_data.get('parent-id') or deck_data.get('parent_id') or deck_data.get('parent')
  if parent_id is not None and not isinstance(parent_id, str):
      print(f"Warning: Deck {deck_id} ('{deck_name}') has non-string parent ID ...")
      parent_id = None
  if not deck_id or deck_name is None:
      print(f"Warning: Skipping deck with missing ID or Name: {deck_data}")
      continue
  deck_obj = Deck(self, deck_id, deck_name, parent_id)
  \<close>
\<close>

definition read_entry :: "json \<Rightarrow> printed list \<times> (exc + Deck option)" where
  "read_entry deck_data =
     (case deck_data of
        JObj d \<Rightarrow>
          (let deck_id = py_or (dict_get d ''id'') (dict_get d ''_id'');
               deck_name = dict_get d ''name'';
               parent_raw = py_or (py_or (dict_get d ''parent-id'') (dict_get d ''parent_id''))
                              (dict_get d ''parent'');
               non_string = (parent_raw \<noteq> JNull \<and> \<not> is_str parent_raw);
               warned = (if non_string then [WarnNonStringParent deck_id deck_name parent_raw]
                         else []);
               parent_id = (case parent_raw of JStr p \<Rightarrow> Some p | _ \<Rightarrow> None)
           in if \<not> truthy deck_id \<or> deck_name = JNull
              then (warned @ [WarnMissingIdOrName deck_data], Inr None)
              else (case (deck_id, deck_name) of
                      (JStr i, JStr n) \<Rightarrow>
                        (warned, Inr (Some \<lparr>id' = i, name = n, parent_id = parent_id\<rparr>))
                    | _ \<Rightarrow> (warned, Inl IllTyped)))
      | _ \<Rightarrow> ([WarnInvalidEntry deck_data], Inr None))"

definition load_step :: "json \<Rightarrow> loop_state \<Rightarrow> exc + loop_state" where
  "load_step deck_data s =
     (case read_entry deck_data of
        (lines, Inl e) \<Rightarrow> Inl e
      | (lines, Inr None) \<Rightarrow> Inr (s\<lparr>warnings := warnings s @ lines\<rparr>)
      | (lines, Inr (Some deck_obj)) \<Rightarrow>
          Inr \<lparr>deck_map = add_deck deck_obj (deck_map s), count = count s + 1,
               warnings = warnings s @ lines\<rparr>)"

text \<open>The loop \<open>for deck_data in decks_list\<close>.\<close>

fun load_loop :: "json list \<Rightarrow> loop_state \<Rightarrow> exc + loop_state" where
  "load_loop [] s = Inr s"
| "load_loop (deck_data # rest) s =
     (case load_step deck_data s of Inl e \<Rightarrow> Inl e | Inr s' \<Rightarrow> load_loop rest s')"

text \<open>
  Lines 377 to 408 of \<open>_load_decks_internal\<close>: the loop from the empty map, then the
  line that reports the count.
\<close>

definition build_deck_map :: "json list \<Rightarrow> exc + loop_state" where
  "build_deck_map decks_list = load_loop decks_list \<lparr>deck_map = [], count = 0, warnings = []\<rparr>"

text \<open>
  The shape of the listing response, lines 366 to 375: a dict with \<open>docs\<close>, or a bare
  list (with a warning); \<open>docs\<close> must be a list.
\<close>

definition decks_list_of :: "json \<Rightarrow> printed list \<times> (exc + json list)" where
  "decks_list_of response_data =
     (let (lines, found) =
            (case response_data of
               JObj d \<Rightarrow> if has_key d ''docs'' then ([], Some (dict_get d ''docs'')) else ([], None)
             | JList l \<Rightarrow> ([WarnDirectList], Some (JList l))
             | _ \<Rightarrow> ([], None))
      in case found of
           None \<Rightarrow> (lines, Inl (MochiAPIError (UnexpectedDecksFormat response_data) None None))
         | Some (JList l) \<Rightarrow> (lines, Inr l)
         | Some other \<Rightarrow> (lines, Inl (MochiAPIError (DocsNotAList other) None None)))"

definition print_lines :: "printed list \<Rightarrow> 'w world \<Rightarrow> 'w world" where
  "print_lines ps wld = wld\<lparr>stdout := stdout wld @ ps\<rparr>"

text \<open>
  \<open>_load_decks_internal\<close>: one \<open>GET decks\<close>, the shape check, the loop. A failure of the
  request is raised again as \<open>MochiAPIError\<close> with the same status code and data.
\<close>

definition load_decks_internal :: "'w transport \<Rightarrow> 'w world \<Rightarrow> (exc + deck_map) \<times> 'w world" where
  "load_decks_internal tr wld =
     (let (r, w1) = make_request tr ''GET'' ''decks'' None (print_line LoadingDecks wld)
      in case r of
           Inl e \<Rightarrow> (Inl (reraise_api FailedToLoadDecks e), w1)
         | Inr response_data \<Rightarrow>
             (case decks_list_of response_data of
                (lines, Inl e) \<Rightarrow> (Inl e, print_lines lines w1)
              | (lines, Inr decks_list) \<Rightarrow>
                  (case build_deck_map decks_list of
                     Inl e \<Rightarrow> (Inl e, print_lines lines w1)
                   | Inr s \<Rightarrow>
                       (Inr (deck_map s),
                        print_lines (lines @ warnings s @ [LoadedDecks (count s)]) w1))))"

text \<open>\<open>refresh_decks\<close>: \<open>self.decks = self._load_decks_internal()\<close>.\<close>

definition refresh_decks ::
    "'w transport \<Rightarrow> MochiAPI \<Rightarrow> 'w world \<Rightarrow> (exc + unit) \<times> MochiAPI \<times> 'w world" where
  "refresh_decks tr self wld =
     (let (r, w1) = load_decks_internal tr (print_line RefreshingCache wld)
      in case r of
           Inl e \<Rightarrow> (Inl e, self, w1)
         | Inr m \<Rightarrow> (Inr (), self\<lparr>decks := m\<rparr>, w1))"

section \<open>Reading the cache\<close>

text \<open>Every deck of the cache, in the order \<open>values()\<close> gives them, lists flattened.\<close>

fun decks_in :: "deck_or_list \<Rightarrow> Deck list" where
  "decks_in (One d) = [d]"
| "decks_in (Many l) = l"

definition all_deck_objects :: "deck_map \<Rightarrow> Deck list" where
  "all_deck_objects m = concat (map (\<lambda>(k, v). decks_in v) m)"

text \<open>
  \<open>get_decks\<close>: with \<open>names_only\<close> the keys of the cache, otherwise one
  \<open>{"name": ..., "id": ...}\<close> for every deck, here the pair of the name and the id.
\<close>

datatype decks_info = Names "string list" | Infos "(string \<times> string) list"

definition get_decks :: "MochiAPI \<Rightarrow> bool \<Rightarrow> decks_info" where
  "get_decks self names_only =
     (if \<not> names_only
      then Infos (map (\<lambda>d. (name d, id' d)) (all_deck_objects (decks self)))
      else Names (map fst (decks self)))"

text \<open>\<open>count_decks\<close>: a list counts for its length, a deck for one.\<close>

definition count_decks :: "MochiAPI \<Rightarrow> nat" where
  "count_decks self =
     foldl (\<lambda>n item. case item of Many l \<Rightarrow> n + length l | One d \<Rightarrow> n + 1) 0
       (map snd (decks self))"

text \<open>\<open>get_deck\<close>: both failures raise \<open>ValueError\<close>.\<close>

definition get_deck :: "MochiAPI \<Rightarrow> string \<Rightarrow> exc + Deck" where
  "get_deck self nm =
     (if map_of (decks self) nm = None
      then Inl (ValueError (NoDeckWithName nm (map fst (decks self))))
      else (case the (map_of (decks self) nm) of
              Many l \<Rightarrow> Inl (ValueError (MultipleDecksWithName nm (map id' l)))
            | One d \<Rightarrow> Inr d))"

text \<open>
  \<open>MochiAPI.__init__\<close>: the key must be a non-empty string, then the cache is loaded and
  the count printed.
\<close>

definition init :: "'w transport \<Rightarrow> string \<Rightarrow> 'w world \<Rightarrow> (exc + MochiAPI) \<times> 'w world" where
  "init tr api_key wld =
     (if api_key = [] then (Inl (ValueError ApiKeyRequired), wld)
      else (let (r, w1) = load_decks_internal tr wld
            in case r of
                 Inl e \<Rightarrow> (Inl e, w1)
               | Inr m \<Rightarrow>
                   (let self = \<lparr>auth = (api_key, []), decks = m\<rparr>
                    in (Inr self, print_line (Initialized (count_decks self)) w1))))"

section \<open>Creating and deleting decks\<close>

text \<open>
  \<open>create_deck\<close>. The request, the checks on the response, the refresh, the lookup by
  the returned name and the fall back on \<open>ValueError\<close>:
  \<^verbatim>\<open>
  try:
      return self.get_deck(deck_name)
  except ValueError as e:
      print(f"Warning: Could not retrieve newly created deck ...")
      return Deck(self, deck_id, deck_name, deck_parent_id)
  \<close>
  Everything is inside the \<open>try\<close> that the two closing handlers guard. The returned name
  must be a string for the lookup, and the id and parent a string (the parent possibly
  \<open>None\<close>) for the object built in the fall back.
\<close>

definition create_payload :: "string \<Rightarrow> string option \<Rightarrow> json" where
  "create_payload nm parent =
     JObj ((''name'', JStr nm) #
           (case parent of
              Some p \<Rightarrow> if p \<noteq> [] then [(''parent-id'', JStr p)] else []
            | None \<Rightarrow> []))"

definition fallback_deck :: "json \<Rightarrow> string \<Rightarrow> json \<Rightarrow> exc + Deck" where
  "fallback_deck deck_id deck_name deck_parent_id =
     (case (deck_id, deck_parent_id) of
        (JStr i, JStr p) \<Rightarrow> Inr \<lparr>id' = i, name = deck_name, parent_id = Some p\<rparr>
      | (JStr i, JNull) \<Rightarrow> Inr \<lparr>id' = i, name = deck_name, parent_id = None\<rparr>
      | _ \<Rightarrow> Inl IllTyped)"

definition create_deck ::
    "'w transport \<Rightarrow> MochiAPI \<Rightarrow> string \<Rightarrow> string option \<Rightarrow> 'w world
       \<Rightarrow> (exc + Deck) \<times> MochiAPI \<times> 'w world" where
  "create_deck tr self nm parent wld =
     (let handlers = reraise (FailedToCreateDeck nm) (UnexpectedCreatingDeck nm);
          (r, w1) = make_request tr ''POST'' ''decks'' (Some (create_payload nm parent))
                      (print_line (AttemptCreateDeck nm) wld)
      in case r of
           Inl e \<Rightarrow> (Inl (handlers e), self, w1)
         | Inr created_deck_data \<Rightarrow>
             (case created_deck_data of
                JObj d \<Rightarrow>
                  (let deck_id = py_or (dict_get d ''id'') (dict_get d ''_id'');
                       deck_name = dict_get d ''name'';
                       deck_parent_id =
                         py_or (py_or (dict_get d ''parent-id'') (dict_get d ''parent_id''))
                           (dict_get d ''parent'')
                   in if \<not> truthy deck_id \<or> deck_name = JNull
                      then (Inl (handlers (MochiAPIError CreatedMissingIdOrName None
                                             (Some created_deck_data))), self, w1)
                      else (case deck_name of
                              JStr n \<Rightarrow>
                                (let (rr, self', w2) =
                                       refresh_decks tr self
                                         (print_line (CreatedRefreshing deck_id n) w1)
                                 in case rr of
                                      Inl e \<Rightarrow> (Inl (handlers e), self', w2)
                                    | Inr u \<Rightarrow>
                                        (let w3 = print_line CacheRefreshed w2
                                         in case get_deck self' n of
                                              Inr deck \<Rightarrow> (Inr deck, self', w3)
                                            | Inl (ValueError m) \<Rightarrow>
                                                (case fallback_deck deck_id n deck_parent_id of
                                                   Inr deck \<Rightarrow>
                                                     (Inr deck, self',
                                                      print_line (WarnNotRetrieved n (ValueError m)) w3)
                                                 | Inl e \<Rightarrow> (Inl e, self', w3))
                                            | Inl e \<Rightarrow> (Inl (handlers e), self', w3)))
                            | _ \<Rightarrow> (Inl IllTyped, self, w1)))
              | _ \<Rightarrow> (Inl (handlers (MochiAPIError ExpectedDictForCreated None
                                       (Some created_deck_data))), self, w1)))"

text \<open>
  The handlers of both delete methods single out status 404:
  \<^verbatim>\<open>
  except MochiAPIError as e:
      if e.status_code == 404:
          raise MochiAPIError(f"Failed to delete deck: No deck found with ID '{deck_id}' (Error 404)",
                              e.status_code, e.response_data) from e
      else:
          raise MochiAPIError(f"Failed to delete deck ID '{deck_id}': {e}", e.status_code, e.response_data) from e
  except Exception as e:
      raise MochiAPIError(f"An unexpected error occurred while deleting deck ID '{deck_id}': {e}") from e
  \<close>
\<close>

fun delete_handlers ::
    "message \<Rightarrow> (exc \<Rightarrow> message) \<Rightarrow> (exc \<Rightarrow> message) \<Rightarrow> exc \<Rightarrow> exc" where
  "delete_handlers not_found failed unexpected (MochiAPIError m sc rd) =
     (if sc = Some 404 then MochiAPIError not_found sc rd
      else MochiAPIError (failed (MochiAPIError m sc rd)) sc rd)"
| "delete_handlers not_found failed unexpected IllTyped = IllTyped"
| "delete_handlers not_found failed unexpected e = MochiAPIError (unexpected e) None None"

definition delete_deck ::
    "'w transport \<Rightarrow> MochiAPI \<Rightarrow> string \<Rightarrow> 'w world \<Rightarrow> (exc + unit) \<times> MochiAPI \<times> 'w world" where
  "delete_deck tr self deck_id wld =
     (let handlers = delete_handlers (NoDeckFoundWithID deck_id) (FailedToDeleteDeck deck_id)
                       (UnexpectedDeletingDeck deck_id);
          (r, w1) = make_request tr ''DELETE'' (''decks/'' @ deck_id) None
                      (print_line (AttemptDeleteDeck deck_id) wld)
      in case r of
           Inl e \<Rightarrow> (Inl (handlers e), self, w1)
         | Inr j \<Rightarrow>
             (let (rr, self', w2) =
                    refresh_decks tr self (print_line (DeletedDeckRefreshing deck_id) w1)
              in case rr of
                   Inl e \<Rightarrow> (Inl (handlers e), self', w2)
                 | Inr u \<Rightarrow> (Inr (), self', print_line CacheRefreshed w2)))"

text \<open>\<open>Deck.delete_deck\<close> delegates to \<open>api.delete_deck(self.id)\<close>.\<close>

definition Deck_delete_deck ::
    "'w transport \<Rightarrow> MochiAPI \<Rightarrow> Deck \<Rightarrow> 'w world \<Rightarrow> (exc + unit) \<times> MochiAPI \<times> 'w world" where
  "Deck_delete_deck tr api self wld = delete_deck tr api (id' self) wld"

text \<open>\<open>Deck.delete_card\<close>: the request and the same handlers, with no refresh.\<close>

definition delete_card :: "'w transport \<Rightarrow> string \<Rightarrow> 'w world \<Rightarrow> (exc + unit) \<times> 'w world" where
  "delete_card tr card_id wld =
     (let (r, w1) = make_request tr ''DELETE'' (''cards/'' @ card_id) None
                      (print_line (AttemptDeleteCard card_id) wld)
      in case r of
           Inl e \<Rightarrow>
             (Inl (delete_handlers (NoCardFoundWithID card_id) (FailedToDeleteCard card_id)
                     (UnexpectedDeletingCard card_id) e), w1)
         | Inr j \<Rightarrow> (Inr (), print_line (DeletedCard card_id) w1))"

section \<open>Cards\<close>

text \<open>\<open>create_card\<close>, and \<open>Deck.add_card\<close> which joins the two sides first.\<close>

definition create_card ::
    "'w transport \<Rightarrow> string \<Rightarrow> string \<Rightarrow> 'w world \<Rightarrow> (exc + json) \<times> 'w world" where
  "create_card tr deck_id content wld =
     (let (r, w1) = make_request tr ''POST'' ''cards''
                      (Some (JObj [(''deck-id'', JStr deck_id), (''content'', JStr content)])) wld
      in case r of
           Inl e \<Rightarrow> (Inl (reraise (FailedToCreateCard deck_id) (UnexpectedCreatingCard deck_id) e), w1)
         | Inr j \<Rightarrow> (Inr j, w1))"

definition add_card ::
    "'w transport \<Rightarrow> Deck \<Rightarrow> string \<Rightarrow> string \<Rightarrow> 'w world \<Rightarrow> (exc + json) \<times> 'w world" where
  "add_card tr self front_text back_text wld =
     create_card tr (id' self) (card_content front_text back_text) wld"

definition update_card ::
    "'w transport \<Rightarrow> string \<Rightarrow> string \<Rightarrow> string \<Rightarrow> 'w world \<Rightarrow> (exc + json) \<times> 'w world" where
  "update_card tr card_id front_text back_text wld =
     (let (r, w1) = make_request tr ''POST'' (''cards/'' @ card_id)
                      (Some (JObj [(''content'', JStr (card_content front_text back_text))])) wld
      in case r of
           Inl e \<Rightarrow> (Inl (reraise (FailedToUpdateCard card_id) (UnexpectedUpdatingCard card_id) e), w1)
         | Inr j \<Rightarrow> (Inr j, w1))"

text \<open>
  The first part of \<open>MochiAPI.get_cards\<close>, lines 631 to 670: finding the id of the deck
  from a name or an id. The locals are those of the source; \<open>found_deck\<close> is the first deck of
  \<open>all_deck_objects\<close> whose id equals the input.
\<close>

definition resolve_deck :: "MochiAPI \<Rightarrow> string \<Rightarrow> exc + (string \<times> string option)" where
  "resolve_deck self deck_name_or_id =
     (let (target_deck_id, ambiguous_name, resolved_by, deck_ids) =
            (if map_of (decks self) deck_name_or_id \<noteq> None
             then (case the (map_of (decks self) deck_name_or_id) of
                     Many l \<Rightarrow> (None, True, None, map id' l)
                   | One d \<Rightarrow> (Some (id' d), False, Some ''name'', []))
             else (None, False, None, []))
      in if ambiguous_name
         then Inl (ValueError (MatchesMultipleDecks deck_name_or_id deck_ids))
         else
           (let (target_deck_id, resolved_by) =
                  (if target_deck_id = None
                   then (case find (\<lambda>deck. id' deck = deck_name_or_id)
                                (all_deck_objects (decks self)) of
                           Some found_deck \<Rightarrow> (Some (id' found_deck), Some ''id'')
                         | None \<Rightarrow> (target_deck_id, resolved_by))
                   else (target_deck_id, resolved_by))
            in case target_deck_id of
                 None \<Rightarrow>
                   Inl (ValueError (NoDeckWithNameOrID deck_name_or_id
                          (length (map fst (decks self)))
                          (length (map snd (map (\<lambda>d. (name d, id' d))
                                      (all_deck_objects (decks self)))))))
               | Some t \<Rightarrow> Inr (t, resolved_by)))"

text \<open>
  The condensed list: \<open>card_data.get('content', '')\<close> then the split. A card that is not
  a dict, or whose content is not a string, raises \<open>AttributeError\<close>.
\<close>

definition content_of :: "json \<Rightarrow> exc + string" where
  "content_of card_data =
     (case card_data of
        JObj d \<Rightarrow>
          (case map_of d ''content'' of
             None \<Rightarrow> Inr []
           | Some (JStr c) \<Rightarrow> Inr c
           | Some other \<Rightarrow> Inl AttributeError)
      | _ \<Rightarrow> Inl AttributeError)"

fun condense_all :: "json list \<Rightarrow> exc + condensed_card list" where
  "condense_all [] = Inr []"
| "condense_all (card_data # rest) =
     (case content_of card_data of
        Inl e \<Rightarrow> Inl e
      | Inr c \<Rightarrow> (case condense_all rest of Inl e \<Rightarrow> Inl e | Inr cs \<Rightarrow> Inr (condense c # cs)))"

datatype cards = RawCards "json list" | CondensedCards "condensed_card list"

text \<open>
  The shape of the response of \<open>GET cards?deck-id=...\<close>, step 5 of \<open>get_cards\<close>:
  the list under \<open>docs\<close>, a bare list (with a warning), the empty dict for no cards.
\<close>

definition raw_cards_of ::
    "string \<Rightarrow> string \<Rightarrow> json \<Rightarrow> printed list \<times> (exc + json list)" where
  "raw_cards_of deck_name_or_id target response_data =
     (case response_data of
        JObj d \<Rightarrow>
          if has_key d ''docs''
          then (case dict_get d ''docs'' of
                  JList l \<Rightarrow> ([], Inr l)
                | _ \<Rightarrow> ([], Inl (MochiAPIError (CardsDocsNotAList deck_name_or_id target) None
                                   (Some response_data))))
          else if d = [] then ([], Inr [])
          else ([], Inl (MochiAPIError (UnexpectedCardsFormat deck_name_or_id target) None
                           (Some response_data)))
      | JList l \<Rightarrow> ([WarnDirectCardList (''cards?deck-id='' @ target)], Inr l)
      | _ \<Rightarrow> ([], Inl (MochiAPIError (UnexpectedCardsFormat deck_name_or_id target) None
                         (Some response_data))))"

text \<open>
  Steps 4 to 6 of \<open>MochiAPI.get_cards\<close>: the request
  \<open>GET cards?deck-id={target_deck_id}\<close>, the shape of the response, the condensed list
  when asked for, inside the \<open>try\<close> that the two closing handlers guard.
\<close>

definition fetch_cards ::
    "'w transport \<Rightarrow> string \<Rightarrow> string \<Rightarrow> string option \<Rightarrow> bool \<Rightarrow> 'w world
       \<Rightarrow> (exc + cards) \<times> 'w world" where
  "fetch_cards tr deck_name_or_id target_deck_id resolved_by condensed wld =
     (let handlers = reraise (FailedToGetCards deck_name_or_id resolved_by target_deck_id)
                       (UnexpectedGettingCards deck_name_or_id resolved_by target_deck_id);
          (r, w1) = make_request tr ''GET'' (''cards?deck-id='' @ target_deck_id) None wld
      in case r of
           Inl e \<Rightarrow> (Inl (handlers e), w1)
         | Inr response_data \<Rightarrow>
             (case raw_cards_of deck_name_or_id target_deck_id response_data of
                (lines, Inl e) \<Rightarrow> (Inl (handlers e), print_lines lines w1)
              | (lines, Inr raw_cards_list) \<Rightarrow>
                  if \<not> condensed then (Inr (RawCards raw_cards_list), print_lines lines w1)
                  else (case condense_all raw_cards_list of
                          Inl e \<Rightarrow> (Inl (handlers e), print_lines lines w1)
                        | Inr cs \<Rightarrow> (Inr (CondensedCards cs), print_lines lines w1))))"

text \<open>
  \<open>MochiAPI.get_cards\<close>: the resolution, then the request. A failure of the resolution
  is raised before the \<open>try\<close> and before any request, so it leaves as the
  \<open>ValueError\<close> it is.
\<close>

definition get_cards ::
    "'w transport \<Rightarrow> MochiAPI \<Rightarrow> string \<Rightarrow> bool \<Rightarrow> 'w world \<Rightarrow> (exc + cards) \<times> 'w world" where
  "get_cards tr self deck_name_or_id condensed wld =
     (case resolve_deck self deck_name_or_id of
        Inl e \<Rightarrow> (Inl e, wld)
      | Inr (target_deck_id, resolved_by) \<Rightarrow>
          fetch_cards tr deck_name_or_id target_deck_id resolved_by condensed wld)"

text \<open>
  \<open>Deck.get_cards\<close>: the raw list through \<open>api.get_cards(self.id, condensed=False)\<close>,
  condensed locally; every failure, that of the resolution too, is caught here.
\<close>

definition Deck_get_cards ::
    "'w transport \<Rightarrow> MochiAPI \<Rightarrow> Deck \<Rightarrow> bool \<Rightarrow> 'w world \<Rightarrow> (exc + cards) \<times> 'w world" where
  "Deck_get_cards tr api self condensed wld =
     (let handlers = reraise (FailedToGetCardsForDeck (name self) (id' self))
                       (UnexpectedGettingCardsForDeck (name self) (id' self));
          (r, w1) = get_cards tr api (id' self) False wld
      in case r of
           Inl e \<Rightarrow> (Inl (handlers e), w1)
         | Inr (CondensedCards cs) \<Rightarrow> (Inr (CondensedCards cs), w1)
         | Inr (RawCards raw_cards_list) \<Rightarrow>
             if condensed
             then (case condense_all raw_cards_list of
                     Inl e \<Rightarrow> (Inl (handlers e), w1)
                   | Inr cs \<Rightarrow> (Inr (CondensedCards cs), w1))
             else (Inr (RawCards raw_cards_list), w1))"

section \<open>What a listing holds\<close>

text \<open>
  The decks of a listing, in listing order: one for each entry the loop accepts. This and
  the next two definitions are used to state what a load produces.
\<close>

definition listed_decks :: "json list \<Rightarrow> Deck list" where
  "listed_decks decks_list =
     List.map_filter (\<lambda>deck_data. case snd (read_entry deck_data) of
                                    Inr (Some d) \<Rightarrow> Some d
                                  | _ \<Rightarrow> None) decks_list"

text \<open>The decks of a list that bear a given name, in the order of the list.\<close>

definition named :: "string \<Rightarrow> Deck list \<Rightarrow> Deck list" where
  "named n ds = filter (\<lambda>d. name d = n) ds"

text \<open>
  A cache groups a list of decks by name: a name no deck bears is not a key, a name one
  deck bears maps to that deck, a name several decks bear maps to the list of all of them
  in order; and no key occurs twice.
\<close>

definition grouped_by_name :: "Deck list \<Rightarrow> deck_map \<Rightarrow> bool" where
  "grouped_by_name ds m =
     (distinct (map fst m) \<and>
      (\<forall>n. map_of m n = (case named n ds of
                           [] \<Rightarrow> None
                         | [d] \<Rightarrow> Some (One d)
                         | d # e # es \<Rightarrow> Some (Many (d # e # es)))))"

text \<open>Every deck of a cache sits under the key that is its own name.\<close>

definition under_own_name :: "deck_map \<Rightarrow> bool" where
  "under_own_name m = list_all (\<lambda>(k, v). list_all (\<lambda>d. name d = k) (decks_in v)) m"

text \<open>
  The list \<open>_load_decks_internal\<close> iterates over in a given world: the decoded listing,
  when the request succeeds and the response has one of the two accepted shapes.
\<close>

definition fetched_decks_list :: "'w transport \<Rightarrow> 'w world \<Rightarrow> json list option" where
  "fetched_decks_list tr wld =
     (case fst (make_request tr ''GET'' ''decks'' None (print_line LoadingDecks wld)) of
        Inl e \<Rightarrow> None
      | Inr response_data \<Rightarrow>
          (case snd (decks_list_of response_data) of Inl e \<Rightarrow> None | Inr l \<Rightarrow> Some l))"

section \<open>A scripted service\<close>

text \<open>
  A service that answers each request with the next outcome of a list, whatever the
  request, and fails to connect when the list is used up. It gives the theorems below
  concrete runs to be checked on.
\<close>

definition scripted :: "(http_outcome list) transport" where
  "scripted method url data w = (case w of [] \<Rightarrow> (RequestException, []) | x # xs \<Rightarrow> (x, xs))"

text \<open>
  A service that answers every request with an empty body and status 204, and keeps the
  list of the requests it received, each as the method and the url.
\<close>

definition recording :: "((string \<times> string) list) transport" where
  "recording method url data w =
     (Responded \<lparr>status_code = 204, content_type = [], text' = [], json_body = None\<rparr>,
      w @ [(method, url)])"

definition ok_json :: "json \<Rightarrow> http_outcome" where
  "ok_json j = Responded \<lparr>status_code = 200, content_type = ''application/json'',
                           text' = ''{}'', json_body = Some j\<rparr>"

definition status_only :: "int \<Rightarrow> http_outcome" where
  "status_only n = Responded \<lparr>status_code = n, content_type = ''text/plain'',
                              text' = ''Not Found'', json_body = None\<rparr>"

definition deck_entry :: "string \<Rightarrow> string \<Rightarrow> json" where
  "deck_entry i n = JObj [(''id'', JStr i), (''name'', JStr n)]"

definition start :: "http_outcome list \<Rightarrow> (http_outcome list) world" where
  "start script = \<lparr>net = script, stdout = []\<rparr>"

text \<open>
  A listing of five entries: two decks named Spanish, one named French, an entry with no
  id and an entry that is not a dict; and the cache a load builds from it.
\<close>

definition listing3 :: "json list" where
  "listing3 = [deck_entry ''d1'' ''Spanish'', JObj [(''name'', JStr ''NoId'')],
               deck_entry ''d2'' ''French'', JInt 7, deck_entry ''d3'' ''Spanish'']"

definition cache3 :: deck_map where
  "cache3 = [(''Spanish'', Many [\<lparr>id' = ''d1'', name = ''Spanish'', parent_id = None\<rparr>,
                                \<lparr>id' = ''d3'', name = ''Spanish'', parent_id = None\<rparr>]),
             (''French'', One \<lparr>id' = ''d2'', name = ''French'', parent_id = None\<rparr>)]"

definition warnings3 :: "printed list" where
  "warnings3 = [WarnMissingIdOrName (JObj [(''name'', JStr ''NoId'')]), WarnInvalidEntry (JInt 7)]"

definition serve3 :: "(http_outcome list) world" where
  "serve3 = start [ok_json (JObj [(''docs'', JList listing3)])]"

definition api3 :: MochiAPI where
  "api3 = \<lparr>auth = (''key'', []), decks = cache3\<rparr>"

text \<open>
  A creation whose response names the deck Spanish, while the listing fetched by the
  refresh then holds three decks of that name.
\<close>

definition created7 :: "(string \<times> json) list" where
  "created7 = [(''id'', JStr ''d9''), (''name'', JStr ''Spanish''), (''parent-id'', JStr ''d2'')]"

definition cache7 :: deck_map where
  "cache7 = [(''Spanish'', Many [\<lparr>id' = ''d1'', name = ''Spanish'', parent_id = None\<rparr>,
                                \<lparr>id' = ''d3'', name = ''Spanish'', parent_id = None\<rparr>,
                                \<lparr>id' = ''d9'', name = ''Spanish'', parent_id = Some ''d2''\<rparr>]),
             (''French'', One \<lparr>id' = ''d2'', name = ''French'', parent_id = None\<rparr>)]"

definition listed7 :: http_outcome where
  "listed7 = ok_json (JObj [(''docs'', JList (listing3 @ [JObj created7]))])"

section \<open>Properties of the split\<close>

lemma find_sep_Some_decomp:
  "find_sep sep c = Some (a, b) \<Longrightarrow> c = a @ sep @ b"
proof (induction c arbitrary: a b)
  case Nil
  then show ?case by (simp split: if_splits)
next
  case (Cons x xs)
  show ?case
  proof (cases "prefix sep (x # xs)")
    case True
    then obtain r where r: "x # xs = sep @ r" by (auto simp: prefix_def)
    from True Cons.prems have "a = []" and "b = drop (length sep) (x # xs)" by simp_all
    with r show ?thesis by simp
  next
    case False
    with Cons.prems obtain a' where "find_sep sep xs = Some (a', b)" and "a = x # a'"
      by (auto split: if_splits)
    with Cons.IH show ?thesis by simp
  qed
qed

lemma find_sep_Some_least:
  "find_sep sep c = Some (a, b) \<Longrightarrow> c = a' @ sep @ b' \<Longrightarrow> length a \<le> length a'"
proof (induction c arbitrary: a b a')
  case Nil
  then show ?case by (simp split: if_splits)
next
  case (Cons x xs)
  show ?case
  proof (cases "prefix sep (x # xs)")
    case True
    with Cons.prems(1) have "a = []" by simp
    then show ?thesis by simp
  next
    case False
    with Cons.prems(1) obtain a0 where a0: "find_sep sep xs = Some (a0, b)" "a = x # a0"
      by (auto split: if_splits)
    from False Cons.prems(2) have "a' \<noteq> []" by (auto simp: prefix_def)
    then obtain y ys where a': "a' = y # ys" by (cases a') auto
    with Cons.prems(2) have "xs = ys @ sep @ b'" by simp
    from Cons.IH[OF a0(1) this] a0(2) a' show ?thesis by simp
  qed
qed

lemma find_sep_None_absent:
  "find_sep sep c = None \<Longrightarrow> c \<noteq> a @ sep @ b"
proof (induction c arbitrary: a)
  case Nil
  then show ?case by (simp split: if_splits)
next
  case (Cons x xs)
  from Cons.prems have np: "\<not> prefix sep (x # xs)" and rest: "find_sep sep xs = None"
    by (auto split: if_splits)
  show ?case
  proof (cases a)
    case Nil
    with np show ?thesis by (auto simp: prefix_def)
  next
    case (Cons y ys)
    with Cons.IH[OF rest, of ys] show ?thesis by auto
  qed
qed

lemma find_sep_first:
  assumes dec: "c = a @ sep @ b"
    and least: "\<forall>a' b'. c = a' @ sep @ b' \<longrightarrow> length a \<le> length a'"
  shows "find_sep sep c = Some (a, b)"
proof (cases "find_sep sep c")
  case None
  from find_sep_None_absent[OF None] dec show ?thesis by blast
next
  case (Some p)
  obtain a0 b0 where p: "p = (a0, b0)" by (cases p)
  from Some p have s: "find_sep sep c = Some (a0, b0)" by simp
  have c0: "c = a0 @ sep @ b0" by (rule find_sep_Some_decomp[OF s])
  have "length a0 \<le> length a" by (rule find_sep_Some_least[OF s dec])
  moreover have "length a \<le> length a0" using least c0 by blast
  ultimately have len: "length a0 = length a" by simp
  from dec c0 have "a @ sep @ b = a0 @ sep @ b0" by simp
  with len have "a = a0 \<and> b = b0" by simp
  with s show ?thesis by simp
qed

lemma condense_first:
  assumes "c = a @ separator @ b"
    and "\<forall>a' b'. c = a' @ separator @ b' \<longrightarrow> length a \<le> length a'"
  shows "condense c = \<lparr>front = py_strip a, back = py_strip b\<rparr>"
  using find_sep_first[OF assms] by (simp add: condense_def py_split1_def)

lemma condense_absent:
  assumes "\<not> (\<exists>a b. c = a @ separator @ b)"
  shows "condense c = \<lparr>front = py_strip c, back = []\<rparr>"
proof (cases "find_sep separator c")
  case None
  then show ?thesis by (simp add: condense_def py_split1_def)
next
  case (Some p)
  obtain a b where "p = (a, b)" by (cases p)
  with Some find_sep_Some_decomp[of separator c a b] assms show ?thesis by blast
qed

text \<open>
  Claim C4. For every content string \<open>c\<close>: when the separator occurs in \<open>c\<close> and \<open>a\<close> is the
  text before its first occurrence (no occurrence starts further left) and \<open>b\<close> the text
  after it, the condensed projection is the stripped \<open>a\<close> and the stripped \<open>b\<close>; when the
  separator does not occur, it is the stripped \<open>c\<close> and the empty string. In particular
  \<open>"Q1\n---\nA1"\<close> gives front \<open>Q1\<close> and back \<open>A1\<close>, and \<open>"OnlyFront"\<close> gives front
  \<open>OnlyFront\<close> and an empty back.
\<close>

theorem condense_spec:
  "(c = a @ separator @ b \<and> (\<forall>a' b'. c = a' @ separator @ b' \<longrightarrow> length a \<le> length a')
      \<longrightarrow> condense c = \<lparr>front = py_strip a, back = py_strip b\<rparr>)
   \<and> ((\<nexists>a b. c = a @ separator @ b) \<longrightarrow> condense c = \<lparr>front = py_strip c, back = []\<rparr>)
   \<and> condense (''Q1'' @ separator @ ''A1'') = \<lparr>front = ''Q1'', back = ''A1''\<rparr>
   \<and> condense ''OnlyFront'' = \<lparr>front = ''OnlyFront'', back = []\<rparr>"
proof (intro conjI impI)
  assume "c = a @ separator @ b \<and> (\<forall>a' b'. c = a' @ separator @ b' \<longrightarrow> length a \<le> length a')"
  then show "condense c = \<lparr>front = py_strip a, back = py_strip b\<rparr>"
    using condense_first by blast
next
  assume "\<nexists>a b. c = a @ separator @ b"
  then show "condense c = \<lparr>front = py_strip c, back = []\<rparr>"
    by (rule condense_absent)
next
  show "condense (''Q1'' @ separator @ ''A1'') = \<lparr>front = ''Q1'', back = ''A1''\<rparr>"
    by (simp add: condense_def py_split1_def separator_def py_strip_def py_isspace_def)
next
  show "condense ''OnlyFront'' = \<lparr>front = ''OnlyFront'', back = []\<rparr>"
    by (simp add: condense_def py_split1_def separator_def py_strip_def py_isspace_def)
qed

theorem condense_spec_witness:
  "condense (''  Q1 '' @ separator @ '' A1 '' @ separator @ ''B'')
     = \<lparr>front = ''Q1'', back = ''A1 '' @ separator @ ''B''\<rparr>
   \<and> condense ''  plain text '' = \<lparr>front = ''plain text'', back = []\<rparr>"
proof -
  let ?c = "''  Q1 '' @ separator @ '' A1 '' @ separator @ ''B''"
  let ?b = "'' A1 '' @ separator @ ''B''"
  have f: "find_sep separator ?c = Some (''  Q1 '', ?b)"
    by (simp add: separator_def)
  have dec: "?c = ''  Q1 '' @ separator @ ?b" by simp
  have least: "\<forall>a' b'. ?c = a' @ separator @ b' \<longrightarrow> length ''  Q1 '' \<le> length a'"
    using find_sep_Some_least[OF f] by blast
  have "condense ?c = \<lparr>front = py_strip ''  Q1 '', back = py_strip ?b\<rparr>"
    using condense_spec[of ?c "''  Q1 ''" ?b] dec least by blast
  then have one: "condense ?c = \<lparr>front = ''Q1'', back = ''A1 '' @ separator @ ''B''\<rparr>"
    by (simp add: py_strip_def py_isspace_def separator_def)
  have n: "find_sep separator ''  plain text '' = None"
    by (simp add: separator_def)
  have "\<nexists>a b. ''  plain text '' = a @ separator @ b"
    using find_sep_None_absent[OF n] by blast
  then have "condense ''  plain text '' = \<lparr>front = py_strip ''  plain text '', back = []\<rparr>"
    using condense_spec[of "''  plain text ''"] by blast
  then have two: "condense ''  plain text '' = \<lparr>front = ''plain text'', back = []\<rparr>"
    by (simp add: py_strip_def py_isspace_def)
  from one two show ?thesis by simp
qed

section \<open>Joining and splitting again\<close>

lemma strip_left_right:
  "\<exists>l t. s = l @ py_strip s @ t \<and> list_all py_isspace l \<and> list_all py_isspace t"
proof -
  let ?m = "dropWhile py_isspace s"
  let ?l = "takeWhile py_isspace s"
  let ?t = "rev (takeWhile py_isspace (rev ?m))"
  have "?m = rev (takeWhile py_isspace (rev ?m) @ dropWhile py_isspace (rev ?m))"
    by (simp only: takeWhile_dropWhile_id rev_rev_ident)
  also have "\<dots> = rev (dropWhile py_isspace (rev ?m)) @ ?t"
    by (simp only: rev_append)
  finally have m: "?m = py_strip s @ ?t" by (simp only: py_strip_def)
  have "s = ?l @ ?m" by simp
  with m have "s = ?l @ py_strip s @ ?t" by simp
  moreover have "list_all py_isspace ?l"
    by (simp add: list_all_iff) (metis set_takeWhileD)
  moreover have "list_all py_isspace ?t"
    by (simp add: list_all_iff) (metis set_takeWhileD)
  ultimately show ?thesis by blast
qed

lemma sublist_split_exists:
  assumes "sublist sep c"
  shows "\<exists>a b. find_sep sep c = Some (a, b)"
proof (cases "find_sep sep c")
  case None
  from assms obtain ps ss where "c = ps @ sep @ ss" by (auto simp: sublist_def)
  with find_sep_None_absent[OF None] show ?thesis by blast
next
  case (Some p)
  then show ?thesis by (cases p) simp
qed

lemma condense_rejoin:
  assumes "sublist separator c"
  shows "\<exists>l1 t1 l2 t2. list_all py_isspace l1 \<and> list_all py_isspace t1
           \<and> list_all py_isspace l2 \<and> list_all py_isspace t2
           \<and> c = l1 @ front (condense c) @ t1 @ separator @ l2 @ back (condense c) @ t2"
proof -
  from sublist_split_exists[OF assms] obtain a b where f: "find_sep separator c = Some (a, b)"
    by blast
  have c: "c = a @ separator @ b" by (rule find_sep_Some_decomp[OF f])
  from f have fr: "front (condense c) = py_strip a" and bk: "back (condense c) = py_strip b"
    by (simp_all add: condense_def py_split1_def)
  from strip_left_right[of a] obtain l1 t1 where
    a: "a = l1 @ py_strip a @ t1" "list_all py_isspace l1" "list_all py_isspace t1" by blast
  from strip_left_right[of b] obtain l2 t2 where
    b: "b = l2 @ py_strip b @ t2" "list_all py_isspace l2" "list_all py_isspace t2" by blast
  have "c = (l1 @ py_strip a @ t1) @ separator @ (l2 @ py_strip b @ t2)"
    using c a(1) b(1) by metis
  then have "c = l1 @ front (condense c) @ t1 @ separator @ l2 @ back (condense c) @ t2"
    using fr bk by simp
  with a(2,3) b(2,3) show ?thesis by blast
qed

lemma joined_first:
  assumes "\<not> sublist separator (f @ butlast separator)"
    and "f @ separator @ b = a' @ separator @ b'"
  shows "length f \<le> length a'"
proof (rule ccontr)
  assume "\<not> length f \<le> length a'"
  then have short: "length (a' @ separator) \<le> length (f @ butlast separator)"
    by (simp add: separator_def)
  have p1: "prefix (a' @ separator) (f @ separator @ b)"
    using assms(2) by (simp add: prefix_def)
  have "separator = butlast separator @ [last separator]" by (simp add: separator_def)
  then have "f @ separator @ b = (f @ butlast separator) @ ([last separator] @ b)"
    by (metis append.assoc)
  then have p2: "prefix (f @ butlast separator) (f @ separator @ b)"
    by (metis prefixI)
  from p1 p2 short have "prefix (a' @ separator) (f @ butlast separator)"
    by (metis prefix_length_prefix)
  then obtain r where "f @ butlast separator = a' @ separator @ r"
    by (auto simp: prefix_def)
  then have "sublist separator (f @ butlast separator)"
    by (auto simp: sublist_def)
  with assms(1) show False by simp
qed

text \<open>
  Claim C8, as stated, at the pair of a front that itself holds the separator and the back
  \<open>c\<close>: the joined content splits at the separator inside the front, so the split does not
  return the front and the back that were joined.
\<close>

theorem join_split_counterexample:
  "condense (card_content (''a'' @ separator @ ''b'') ''c'')
     = \<lparr>front = ''a'', back = ''b'' @ separator @ ''c''\<rparr>
   \<and> condense (card_content (''a'' @ separator @ ''b'') ''c'')
     \<noteq> \<lparr>front = py_strip (''a'' @ separator @ ''b''), back = py_strip ''c''\<rparr>"
  by (simp add: condense_def card_content_def py_split1_def separator_def py_strip_def
      py_isspace_def)

text \<open>
  Claim C8, amended. For every content \<open>c\<close> in which the separator occurs, \<open>c\<close> is the
  front of its condensed form, the separator and the back of its condensed form, with
  whitespace only around the front and around the back. For every front and back such that
  the separator does not occur in the front followed by \<open>"\n---"\<close> (so that the first
  separator of the joined content is the one the join inserts), splitting the joined content
  returns the stripped front and the stripped back.
\<close>

theorem join_split_roundtrip:
  "(sublist separator c \<longrightarrow>
      (\<exists>l1 t1 l2 t2. list_all py_isspace l1 \<and> list_all py_isspace t1
           \<and> list_all py_isspace l2 \<and> list_all py_isspace t2
           \<and> c = l1 @ front (condense c) @ t1 @ separator @ l2 @ back (condense c) @ t2))
   \<and> (\<not> sublist separator (f @ butlast separator) \<longrightarrow>
        condense (card_content f b) = \<lparr>front = py_strip f, back = py_strip b\<rparr>)"
proof (intro conjI impI)
  assume "sublist separator c"
  then show "\<exists>l1 t1 l2 t2. list_all py_isspace l1 \<and> list_all py_isspace t1
           \<and> list_all py_isspace l2 \<and> list_all py_isspace t2
           \<and> c = l1 @ front (condense c) @ t1 @ separator @ l2 @ back (condense c) @ t2"
    by (rule condense_rejoin)
next
  assume n: "\<not> sublist separator (f @ butlast separator)"
  have "\<forall>a' b'. f @ separator @ b = a' @ separator @ b' \<longrightarrow> length f \<le> length a'"
    using joined_first[OF n] by blast
  then show "condense (card_content f b) = \<lparr>front = py_strip f, back = py_strip b\<rparr>"
    unfolding card_content_def using condense_first[of "f @ separator @ b" f b] by blast
qed

theorem join_split_roundtrip_witness:
  "(\<exists>l1 t1 l2 t2. list_all py_isspace l1 \<and> list_all py_isspace t1
        \<and> list_all py_isspace l2 \<and> list_all py_isspace t2
        \<and> '' Q '' @ separator @ ''A '' =
            l1 @ front (condense ('' Q '' @ separator @ ''A '')) @ t1 @ separator
              @ l2 @ back (condense ('' Q '' @ separator @ ''A '')) @ t2)
   \<and> condense (card_content '' What is 2 - 1? '' ''1'')
       = \<lparr>front = ''What is 2 - 1?'', back = ''1''\<rparr>"
proof -
  have s: "sublist separator ('' Q '' @ separator @ ''A '')"
    by (metis sublist_appendI)
  have n: "\<not> sublist separator ('' What is 2 - 1? '' @ butlast separator)"
    by (simp add: separator_def sublist_code)
  from join_split_roundtrip[of "'' Q '' @ separator @ ''A ''" "'' What is 2 - 1? ''" "''1''"] s n
  have "(\<exists>l1 t1 l2 t2. list_all py_isspace l1 \<and> list_all py_isspace t1
        \<and> list_all py_isspace l2 \<and> list_all py_isspace t2
        \<and> '' Q '' @ separator @ ''A '' =
            l1 @ front (condense ('' Q '' @ separator @ ''A '')) @ t1 @ separator
              @ l2 @ back (condense ('' Q '' @ separator @ ''A '')) @ t2)"
    and "condense (card_content '' What is 2 - 1? '' ''1'')
       = \<lparr>front = py_strip '' What is 2 - 1? '', back = py_strip ''1''\<rparr>"
    by blast+
  then show ?thesis by (simp add: py_strip_def py_isspace_def)
qed

section \<open>The cache after a load\<close>

lemma named_append: "named n (ds @ [d]) = (if name d = n then named n ds @ [d] else named n ds)"
  by (simp add: named_def)

lemma add_deck_grouped:
  assumes "grouped_by_name ds m"
  shows "grouped_by_name (ds @ [d]) (add_deck d m)"
proof -
  from assms have dist: "distinct (map fst m)"
    and look: "\<And>n. map_of m n = (case named n ds of [] \<Rightarrow> None | [d] \<Rightarrow> Some (One d)
                                    | d # e # es \<Rightarrow> Some (Many (d # e # es)))"
    by (simp_all add: grouped_by_name_def)
  have d2: "distinct (map fst (add_deck d m))"
    using dist by (simp add: add_deck_def distinct_update split: option.splits deck_or_list.splits)
  have "map_of (add_deck d m) n = (case named n (ds @ [d]) of [] \<Rightarrow> None | [d] \<Rightarrow> Some (One d)
                                    | d # e # es \<Rightarrow> Some (Many (d # e # es)))" for n
  proof (cases "name d = n")
    case False
    then show ?thesis using look[of n]
      by (simp add: add_deck_def update_conv' named_append split: option.splits deck_or_list.splits)
  next
    case True
    show ?thesis
    proof (cases "named n ds")
      case Nil
      with look[of n] True show ?thesis
        by (simp add: add_deck_def update_conv' named_append)
    next
      case (Cons e es)
      show ?thesis
      proof (cases es)
        case Nil
        with Cons look[of n] True show ?thesis
          by (simp add: add_deck_def update_conv' named_append)
      next
        case (Cons e2 es2)
        with \<open>named n ds = e # es\<close> look[of n] True show ?thesis
          by (simp add: add_deck_def update_conv' named_append)
      qed
    qed
  qed
  with d2 show ?thesis by (simp add: grouped_by_name_def)
qed

lemma listed_decks_Cons:
  "listed_decks (x # xs) =
     (case snd (read_entry x) of Inr (Some d) \<Rightarrow> d # listed_decks xs | _ \<Rightarrow> listed_decks xs)"
  by (simp add: listed_decks_def List.map_filter_simps split: sum.splits option.splits)

lemma load_loop_grouped:
  "load_loop entries s = Inr s' \<Longrightarrow> grouped_by_name ds (deck_map s)
     \<Longrightarrow> grouped_by_name (ds @ listed_decks entries) (deck_map s')"
proof (induction entries arbitrary: s ds)
  case Nil
  then show ?case by (simp add: listed_decks_def List.map_filter_simps)
next
  case (Cons x xs)
  obtain lines r where re: "read_entry x = (lines, r)" by (cases "read_entry x")
  show ?case
  proof (cases r)
    case (Inl e)
    with Cons.prems re show ?thesis by (simp add: load_step_def)
  next
    case (Inr od)
    show ?thesis
    proof (cases od)
      case None
      with Inr re Cons.prems(1) have "load_loop xs (s\<lparr>warnings := warnings s @ lines\<rparr>) = Inr s'"
        by (simp add: load_step_def)
      from Cons.IH[OF this, of ds] Cons.prems(2) None Inr re show ?thesis
        by (simp add: listed_decks_Cons)
    next
      case (Some d)
      with Inr re Cons.prems(1) have
        "load_loop xs \<lparr>deck_map = add_deck d (deck_map s), count = count s + 1,
               warnings = warnings s @ lines\<rparr> = Inr s'"
        by (simp add: load_step_def)
      from Cons.IH[OF this, of "ds @ [d]"] add_deck_grouped[OF Cons.prems(2), of d] Some Inr re
      show ?thesis by (simp add: listed_decks_Cons)
    qed
  qed
qed

lemma build_deck_map_grouped:
  assumes "build_deck_map decks_list = Inr s"
  shows "grouped_by_name (listed_decks decks_list) (deck_map s)"
proof -
  have "grouped_by_name [] (deck_map \<lparr>deck_map = [], count = 0, warnings = []\<rparr>)"
    by (simp add: grouped_by_name_def named_def)
  from load_loop_grouped[OF assms[unfolded build_deck_map_def] this] show ?thesis by simp
qed

lemma grouped_under_own_name:
  assumes "grouped_by_name ds m"
  shows "under_own_name m"
proof -
  have "name d = k" if kv: "(k, v) \<in> set m" and d: "d \<in> set (decks_in v)" for k v d
  proof -
    from assms have "distinct (map fst m)" by (simp add: grouped_by_name_def)
    from map_of_is_SomeI[OF this kv] have look: "map_of m k = Some v" .
    from assms have "map_of m k = (case named k ds of [] \<Rightarrow> None | [d] \<Rightarrow> Some (One d)
                                    | d # e # es \<Rightarrow> Some (Many (d # e # es)))"
      by (simp add: grouped_by_name_def)
    with look have "set (decks_in v) \<subseteq> set (named k ds)"
      by (auto split: list.splits)
    with d have "d \<in> set (named k ds)" by blast
    then show ?thesis by (simp add: named_def)
  qed
  then show ?thesis by (auto simp: under_own_name_def list_all_iff)
qed

text \<open>What a successful load returns is the map the loop built from the fetched list.\<close>

lemma load_decks_internal_Inr:
  assumes "load_decks_internal tr wld = (Inr m, wld')"
  shows "\<exists>l s. fetched_decks_list tr wld = Some l \<and> build_deck_map l = Inr s \<and> m = deck_map s"
proof -
  obtain r w1 where mr: "make_request tr ''GET'' ''decks'' None (print_line LoadingDecks wld) = (r, w1)"
    by (cases "make_request tr ''GET'' ''decks'' None (print_line LoadingDecks wld)")
  show ?thesis
  proof (cases r)
    case (Inl e)
    with assms mr show ?thesis by (simp add: load_decks_internal_def)
  next
    case (Inr response_data)
    obtain lines dl where dl: "decks_list_of response_data = (lines, dl)"
      by (cases "decks_list_of response_data")
    show ?thesis
    proof (cases dl)
      case (Inl e)
      with assms mr Inr dl show ?thesis by (simp add: load_decks_internal_def)
    next
      case inr: (Inr l)
      show ?thesis
      proof (cases "build_deck_map l")
        case (Inl e)
        with assms mr Inr dl inr show ?thesis by (simp add: load_decks_internal_def)
      next
        case built: (Inr s)
        with assms mr Inr dl inr have "m = deck_map s" by (simp add: load_decks_internal_def)
        moreover have "fetched_decks_list tr wld = Some l"
          using mr Inr dl inr by (simp add: fetched_decks_list_def)
        ultimately show ?thesis using built by blast
      qed
    qed
  qed
qed

lemma refresh_decks_Inr:
  assumes "refresh_decks tr self wld = (Inr u, self', wld')"
  shows "load_decks_internal tr (print_line RefreshingCache wld) = (Inr (decks self'), wld')
         \<and> self' = self\<lparr>decks := decks self'\<rparr>"
proof -
  obtain r w1 where l: "load_decks_internal tr (print_line RefreshingCache wld) = (r, w1)"
    by (cases "load_decks_internal tr (print_line RefreshingCache wld)")
  with assms show ?thesis by (cases r) (auto simp: refresh_decks_def)
qed

lemma init_Inr:
  assumes "init tr api_key wld = (Inr self', wld')"
  shows "\<exists>w1. load_decks_internal tr wld = (Inr (decks self'), w1)"
proof -
  obtain r w1 where l: "load_decks_internal tr wld = (r, w1)"
    by (cases "load_decks_internal tr wld")
  with assms show ?thesis
    by (cases r) (auto simp: init_def Let_def split: if_splits)
qed

text \<open>
  Claim C2. After every successful load the cache groups the decks of the fetched listing
  by name: a name one listed deck bears maps to that deck, a name two or more bear maps to
  the list of all of them in listing order, a name none bears is no key, and every cached
  deck sits under its own name. This holds for the map the loop builds, for what
  \<open>_load_decks_internal\<close> returns, for the cache after \<open>refresh_decks\<close> (which every
  mutation calls), and for the cache after construction.
\<close>

theorem cache_grouped_after_load:
  "(build_deck_map decks_list = Inr s \<longrightarrow>
      grouped_by_name (listed_decks decks_list) (deck_map s) \<and> under_own_name (deck_map s))
   \<and> (load_decks_internal tr wld = (Inr m, wld') \<longrightarrow>
        (\<exists>l. fetched_decks_list tr wld = Some l
              \<and> grouped_by_name (listed_decks l) m \<and> under_own_name m))
   \<and> (refresh_decks tr self wld = (Inr u, self', wld') \<longrightarrow>
        (\<exists>l. fetched_decks_list tr (print_line RefreshingCache wld) = Some l
              \<and> grouped_by_name (listed_decks l) (decks self') \<and> under_own_name (decks self')))
   \<and> (init tr api_key wld = (Inr self', wld') \<longrightarrow>
        (\<exists>l. fetched_decks_list tr wld = Some l
              \<and> grouped_by_name (listed_decks l) (decks self') \<and> under_own_name (decks self')))"
proof -
  have loaded: "\<exists>l. fetched_decks_list tr w = Some l
              \<and> grouped_by_name (listed_decks l) c \<and> under_own_name c"
    if "load_decks_internal tr w = (Inr c, w')" for w c w'
  proof -
    from load_decks_internal_Inr[OF that] obtain l s0 where
      l: "fetched_decks_list tr w = Some l" "build_deck_map l = Inr s0" "c = deck_map s0"
      by blast
    from build_deck_map_grouped[OF l(2)] l(3) have g: "grouped_by_name (listed_decks l) c"
      by simp
    with l(1) grouped_under_own_name[OF g] show ?thesis by blast
  qed
  have one: "build_deck_map decks_list = Inr s \<longrightarrow>
      grouped_by_name (listed_decks decks_list) (deck_map s) \<and> under_own_name (deck_map s)"
    using build_deck_map_grouped grouped_under_own_name by blast
  have two: "load_decks_internal tr wld = (Inr m, wld') \<longrightarrow>
        (\<exists>l. fetched_decks_list tr wld = Some l
              \<and> grouped_by_name (listed_decks l) m \<and> under_own_name m)"
    using loaded by blast
  have three: "refresh_decks tr self wld = (Inr u, self', wld') \<longrightarrow>
        (\<exists>l. fetched_decks_list tr (print_line RefreshingCache wld) = Some l
              \<and> grouped_by_name (listed_decks l) (decks self') \<and> under_own_name (decks self'))"
    using refresh_decks_Inr loaded by blast
  have four: "init tr api_key wld = (Inr self', wld') \<longrightarrow>
        (\<exists>l. fetched_decks_list tr wld = Some l
              \<and> grouped_by_name (listed_decks l) (decks self') \<and> under_own_name (decks self'))"
    using init_Inr loaded by blast
  from one two three four show ?thesis by blast
qed

theorem cache_grouped_after_load_witness:
  "grouped_by_name (listed_decks listing3) cache3 \<and> under_own_name cache3
   \<and> (\<exists>l. fetched_decks_list scripted serve3 = Some l
          \<and> grouped_by_name (listed_decks l) cache3 \<and> under_own_name cache3)
   \<and> (\<exists>l. fetched_decks_list scripted (print_line RefreshingCache serve3) = Some l
          \<and> grouped_by_name (listed_decks l) cache3 \<and> under_own_name cache3)"
proof -
  have e1: "build_deck_map listing3 = Inr \<lparr>deck_map = cache3, count = 3, warnings = warnings3\<rparr>"
    by code_simp
  have e2: "load_decks_internal scripted serve3
              = (Inr cache3, \<lparr>net = [], stdout = LoadingDecks # warnings3 @ [LoadedDecks 3]\<rparr>)"
    by code_simp
  have e3: "refresh_decks scripted \<lparr>auth = (''key'', []), decks = []\<rparr> serve3
              = (Inr (), \<lparr>auth = (''key'', []), decks = cache3\<rparr>,
                 \<lparr>net = [], stdout = RefreshingCache # LoadingDecks # warnings3 @ [LoadedDecks 3]\<rparr>)"
    by code_simp
  have e4: "init scripted ''key'' serve3
              = (Inr \<lparr>auth = (''key'', []), decks = cache3\<rparr>,
                 \<lparr>net = [], stdout = LoadingDecks # warnings3 @ [LoadedDecks 3, Initialized 3]\<rparr>)"
    by code_simp
  note inst = cache_grouped_after_load[where decks_list = listing3
      and s = "\<lparr>deck_map = cache3, count = 3, warnings = warnings3\<rparr>"
      and tr = scripted and wld = serve3 and m = cache3
      and self = "\<lparr>auth = (''key'', []), decks = []\<rparr>" and u = "()"
      and self' = "\<lparr>auth = (''key'', []), decks = cache3\<rparr>" and api_key = "''key''"]
  from e1 e2 inst[where wld' = "\<lparr>net = [], stdout = LoadingDecks # warnings3 @ [LoadedDecks 3]\<rparr>"]
  have a: "grouped_by_name (listed_decks listing3) cache3 \<and> under_own_name cache3"
    and b: "\<exists>l. fetched_decks_list scripted serve3 = Some l
          \<and> grouped_by_name (listed_decks l) cache3 \<and> under_own_name cache3"
    by auto
  from e3 inst[where wld' = "\<lparr>net = [], stdout = RefreshingCache # LoadingDecks # warnings3 @ [LoadedDecks 3]\<rparr>"]
  have c: "\<exists>l. fetched_decks_list scripted (print_line RefreshingCache serve3) = Some l
          \<and> grouped_by_name (listed_decks l) cache3 \<and> under_own_name cache3"
    by auto
  from e4 inst[where wld' = "\<lparr>net = [], stdout = LoadingDecks # warnings3 @ [LoadedDecks 3, Initialized 3]\<rparr>"]
  have d: "\<exists>l. fetched_decks_list scripted serve3 = Some l
          \<and> grouped_by_name (listed_decks l) cache3 \<and> under_own_name cache3"
    by auto
  from a b c show ?thesis by blast
qed

section \<open>Entries the loop skips\<close>

lemma load_loop_append:
  "load_loop (xs @ ys) s = (case load_loop xs s of Inl e \<Rightarrow> Inl e | Inr s' \<Rightarrow> load_loop ys s')"
  by (induction xs arbitrary: s) (auto split: sum.splits)

text \<open>
  Two runs of the loop from states with the same map and count go the same way, whatever
  was printed before: they fail alike, or end with the same map and count.
\<close>

lemma load_loop_same_cache:
  assumes "deck_map s = deck_map t" and "count s = count t"
  shows "case load_loop ys s of
           Inl e \<Rightarrow> load_loop ys t = Inl e
         | Inr s' \<Rightarrow> (\<exists>t'. load_loop ys t = Inr t' \<and> deck_map t' = deck_map s'
                          \<and> count t' = count s' \<and> set (warnings t) \<subseteq> set (warnings t'))"
  using assms
proof (induction ys arbitrary: s t)
  case Nil
  then show ?case by simp
next
  case (Cons x xs)
  obtain lines r where re: "read_entry x = (lines, r)" by (cases "read_entry x")
  show ?case
  proof (cases r)
    case (Inl e)
    with re show ?thesis by (simp add: load_step_def)
  next
    case (Inr od)
    show ?thesis
    proof (cases od)
      case None
      have "case load_loop xs (s\<lparr>warnings := warnings s @ lines\<rparr>) of
              Inl e \<Rightarrow> load_loop xs (t\<lparr>warnings := warnings t @ lines\<rparr>) = Inl e
            | Inr s' \<Rightarrow> (\<exists>t'. load_loop xs (t\<lparr>warnings := warnings t @ lines\<rparr>) = Inr t'
                  \<and> deck_map t' = deck_map s' \<and> count t' = count s'
                  \<and> set (warnings (t\<lparr>warnings := warnings t @ lines\<rparr>)) \<subseteq> set (warnings t'))"
        by (rule Cons.IH) (simp_all add: Cons.prems)
      with None Inr re show ?thesis
        by (auto simp: load_step_def split: sum.splits)
    next
      case (Some d)
      let ?s1 = "\<lparr>deck_map = add_deck d (deck_map s), count = count s + 1,
                  warnings = warnings s @ lines\<rparr>"
      let ?t1 = "\<lparr>deck_map = add_deck d (deck_map t), count = count t + 1,
                  warnings = warnings t @ lines\<rparr>"
      have "case load_loop xs ?s1 of
              Inl e \<Rightarrow> load_loop xs ?t1 = Inl e
            | Inr s' \<Rightarrow> (\<exists>t'. load_loop xs ?t1 = Inr t'
                  \<and> deck_map t' = deck_map s' \<and> count t' = count s'
                  \<and> set (warnings ?t1) \<subseteq> set (warnings t'))"
        by (rule Cons.IH) (simp_all add: Cons.prems)
      with Some Inr re show ?thesis
        by (auto simp: load_step_def split: sum.splits)
    qed
  qed
qed

text \<open>
  An entry the loop reads as no deck leaves the map and the count as they would be without
  it, and the lines it prints stay in what the loop has printed.
\<close>

lemma skipped_entry_no_effect:
  assumes skip: "read_entry x = (lines, Inr None)"
  shows "case build_deck_map (xs @ ys) of
           Inl e \<Rightarrow> build_deck_map (xs @ x # ys) = Inl e
         | Inr s \<Rightarrow> (\<exists>s'. build_deck_map (xs @ x # ys) = Inr s' \<and> deck_map s' = deck_map s
                         \<and> count s' = count s \<and> set lines \<subseteq> set (warnings s'))"
proof (cases "load_loop xs \<lparr>deck_map = [], count = 0, warnings = []\<rparr>")
  case (Inl e)
  then show ?thesis by (simp add: build_deck_map_def load_loop_append)
next
  case (Inr s1)
  have same: "case load_loop ys s1 of
           Inl e \<Rightarrow> load_loop ys (s1\<lparr>warnings := warnings s1 @ lines\<rparr>) = Inl e
         | Inr s' \<Rightarrow> (\<exists>t'. load_loop ys (s1\<lparr>warnings := warnings s1 @ lines\<rparr>) = Inr t'
               \<and> deck_map t' = deck_map s' \<and> count t' = count s'
               \<and> set (warnings (s1\<lparr>warnings := warnings s1 @ lines\<rparr>)) \<subseteq> set (warnings t'))"
    by (rule load_loop_same_cache) simp_all
  have with_x: "build_deck_map (xs @ x # ys) = load_loop ys (s1\<lparr>warnings := warnings s1 @ lines\<rparr>)"
    using Inr skip by (simp add: build_deck_map_def load_loop_append load_step_def)
  have without: "build_deck_map (xs @ ys) = load_loop ys s1"
    using Inr by (simp add: build_deck_map_def load_loop_append)
  from same show ?thesis
    unfolding with_x without by (auto split: sum.splits)
qed

lemma read_entry_missing:
  assumes "\<not> truthy (py_or (dict_get d ''id'') (dict_get d ''_id'')) \<or> dict_get d ''name'' = JNull"
  shows "\<exists>lines. read_entry (JObj d) = (lines @ [WarnMissingIdOrName (JObj d)], Inr None)"
  using assms by (auto simp: read_entry_def Let_def)

text \<open>
  Claim C5. An entry of the listing that is a record with no id (no value under \<open>id\<close> and
  none under \<open>_id\<close>, the other key the loop reads the id from) or with no name is skipped
  with the warning for a missing id or name; the load fails with it exactly when it fails
  without it, and otherwise the cache, hence \<open>count_decks\<close> and both forms of
  \<open>get_decks\<close>, are what they are for the listing without the entry, so the entry is not
  in the cache.
\<close>

theorem missing_id_or_name_skipped:
  "(dict_get d ''id'' = JNull \<and> dict_get d ''_id'' = JNull) \<or> dict_get d ''name'' = JNull \<Longrightarrow>
   snd (read_entry (JObj d)) = Inr None
   \<and> (case build_deck_map (xs @ ys) of
         Inl e \<Rightarrow> build_deck_map (xs @ JObj d # ys) = Inl e
       | Inr s \<Rightarrow>
          (\<exists>s'. build_deck_map (xs @ JObj d # ys) = Inr s'
               \<and> WarnMissingIdOrName (JObj d) \<in> set (warnings s')
               \<and> deck_map s' = deck_map s
               \<and> count_decks (self\<lparr>decks := deck_map s'\<rparr>) = count_decks (self\<lparr>decks := deck_map s\<rparr>)
               \<and> get_decks (self\<lparr>decks := deck_map s'\<rparr>) False
                   = get_decks (self\<lparr>decks := deck_map s\<rparr>) False
               \<and> get_decks (self\<lparr>decks := deck_map s'\<rparr>) True
                   = get_decks (self\<lparr>decks := deck_map s\<rparr>) True))"
proof -
  assume "(dict_get d ''id'' = JNull \<and> dict_get d ''_id'' = JNull) \<or> dict_get d ''name'' = JNull"
  then have "\<not> truthy (py_or (dict_get d ''id'') (dict_get d ''_id'')) \<or> dict_get d ''name'' = JNull"
    by (auto simp: py_or_def)
  from read_entry_missing[OF this] obtain lines where
    re: "read_entry (JObj d) = (lines @ [WarnMissingIdOrName (JObj d)], Inr None)" by blast
  from skipped_entry_no_effect[OF re, of xs ys] re show ?thesis
    by (auto split: sum.splits)
qed

theorem missing_id_or_name_skipped_witness:
  "snd (read_entry (JObj [(''name'', JStr ''NoId'')])) = Inr None
   \<and> snd (read_entry (JObj [(''id'', JStr ''x9'')])) = Inr None
   \<and> (\<exists>s'. build_deck_map ([deck_entry ''d1'' ''Spanish''] @ JObj [(''name'', JStr ''NoId'')]
                  # [deck_entry ''d2'' ''French'']) = Inr s'
          \<and> WarnMissingIdOrName (JObj [(''name'', JStr ''NoId'')]) \<in> set (warnings s')
          \<and> deck_map s' = [(''Spanish'', One \<lparr>id' = ''d1'', name = ''Spanish'', parent_id = None\<rparr>),
                           (''French'', One \<lparr>id' = ''d2'', name = ''French'', parent_id = None\<rparr>)])"
proof -
  let ?s = "\<lparr>deck_map = [(''Spanish'', One \<lparr>id' = ''d1'', name = ''Spanish'', parent_id = None\<rparr>),
                        (''French'', One \<lparr>id' = ''d2'', name = ''French'', parent_id = None\<rparr>)],
            count = 2, warnings = []\<rparr>"
  have h1: "(dict_get [(''name'', JStr ''NoId'')] ''id'' = JNull
             \<and> dict_get [(''name'', JStr ''NoId'')] ''_id'' = JNull)
            \<or> dict_get [(''name'', JStr ''NoId'')] ''name'' = JNull"
    by (simp add: dict_get_def)
  have h2: "(dict_get [(''id'', JStr ''x9'')] ''id'' = JNull
             \<and> dict_get [(''id'', JStr ''x9'')] ''_id'' = JNull)
            \<or> dict_get [(''id'', JStr ''x9'')] ''name'' = JNull"
    by (simp add: dict_get_def)
  have e: "build_deck_map ([deck_entry ''d1'' ''Spanish''] @ [deck_entry ''d2'' ''French'']) = Inr ?s"
    by code_simp
  from missing_id_or_name_skipped[OF h1, of "[deck_entry ''d1'' ''Spanish'']"
      "[deck_entry ''d2'' ''French'']" "\<lparr>auth = (''key'', []), decks = []\<rparr>"] e
  have a: "snd (read_entry (JObj [(''name'', JStr ''NoId'')])) = Inr None
   \<and> (\<exists>s'. build_deck_map ([deck_entry ''d1'' ''Spanish''] @ JObj [(''name'', JStr ''NoId'')]
                  # [deck_entry ''d2'' ''French'']) = Inr s'
          \<and> WarnMissingIdOrName (JObj [(''name'', JStr ''NoId'')]) \<in> set (warnings s')
          \<and> deck_map s' = deck_map ?s)"
    by auto
  from missing_id_or_name_skipped[OF h2, of "[]" "[]" "\<lparr>auth = (''key'', []), decks = []\<rparr>"]
  have b: "snd (read_entry (JObj [(''id'', JStr ''x9'')])) = Inr None"
    by simp
  from a b show ?thesis by simp
qed

section \<open>Empty names and empty ids\<close>

lemma grouped_all_decks_listed:
  assumes "grouped_by_name ds m"
  shows "set (all_deck_objects m) \<subseteq> set ds"
proof
  fix d assume "d \<in> set (all_deck_objects m)"
  then obtain k v where kv: "(k, v) \<in> set m" and d: "d \<in> set (decks_in v)"
    by (auto simp: all_deck_objects_def)
  from assms have "distinct (map fst m)" by (simp add: grouped_by_name_def)
  from map_of_is_SomeI[OF this kv] have look: "map_of m k = Some v" .
  from assms have "map_of m k = (case named k ds of [] \<Rightarrow> None | [d] \<Rightarrow> Some (One d)
                                  | d # e # es \<Rightarrow> Some (Many (d # e # es)))"
    by (simp add: grouped_by_name_def)
  with look have "set (decks_in v) \<subseteq> set (named k ds)"
    by (auto split: list.splits)
  with d show "d \<in> set ds" by (auto simp: named_def)
qed

lemma grouped_named_found:
  assumes "grouped_by_name ds m" and "d \<in> set ds"
  shows "\<exists>v. map_of m (name d) = Some v \<and> d \<in> set (decks_in v)"
proof -
  from assms(2) have mem: "d \<in> set (named (name d) ds)" by (simp add: named_def)
  from assms(1) have "map_of m (name d) = (case named (name d) ds of [] \<Rightarrow> None
        | [d] \<Rightarrow> Some (One d) | d # e # es \<Rightarrow> Some (Many (d # e # es)))"
    by (simp add: grouped_by_name_def)
  with mem show ?thesis
    by (cases "named (name d) ds" rule: remdups_adj.cases) auto
qed

lemma listed_decks_mem:
  "d \<in> set (listed_decks l) \<longleftrightarrow> (\<exists>x \<in> set l. snd (read_entry x) = Inr (Some d))"
  by (induction l) (auto simp: listed_decks_Cons listed_decks_def List.map_filter_simps
      split: sum.splits option.splits)

lemma read_entry_id_not_empty:
  assumes "snd (read_entry x) = Inr (Some d)"
  shows "id' d \<noteq> []"
  using assms
  by (auto simp: read_entry_def Let_def split: json.splits if_splits)

text \<open>
  Claim C10. An entry whose name is the empty string and whose id is a non-empty string
  is accepted: it is read as a deck of that id and the empty name, and in the cache of any
  successful load of a listing that holds it, the key \<open>""\<close> is present and leads to that
  deck, so looking the empty name up does not report it as not found. An entry whose
  \<open>id\<close> is the empty string (and that has no \<open>_id\<close>) is skipped as an entry with no id
  is: no deck is read from it and the load goes as it does without it. No deck of a cache
  that a load built has the empty id.
\<close>

theorem empty_name_kept_empty_id_skipped:
  "(dict_get d ''name'' = JStr [] \<and> dict_get d ''id'' = JStr i \<and> i \<noteq> [] \<longrightarrow>
      (\<exists>p. snd (read_entry (JObj d)) = Inr (Some \<lparr>id' = i, name = [], parent_id = p\<rparr>)
           \<and> (JObj d \<in> set l \<and> build_deck_map l = Inr s \<longrightarrow>
                (\<exists>v. map_of (deck_map s) [] = Some v
                     \<and> \<lparr>id' = i, name = [], parent_id = p\<rparr> \<in> set (decks_in v)
                     \<and> get_deck (self\<lparr>decks := deck_map s\<rparr>) []
                         \<noteq> Inl (ValueError (NoDeckWithName [] (map fst (deck_map s))))))))
   \<and> (dict_get d ''id'' = JStr [] \<and> dict_get d ''_id'' = JNull \<longrightarrow>
        snd (read_entry (JObj d)) = Inr None
        \<and> (case build_deck_map (xs @ ys) of
              Inl e \<Rightarrow> build_deck_map (xs @ JObj d # ys) = Inl e
            | Inr t \<Rightarrow>
               (\<exists>t'. build_deck_map (xs @ JObj d # ys) = Inr t'
                    \<and> WarnMissingIdOrName (JObj d) \<in> set (warnings t')
                    \<and> deck_map t' = deck_map t \<and> count t' = count t)))
   \<and> (build_deck_map l = Inr s \<longrightarrow> list_all (\<lambda>dk. id' dk \<noteq> []) (all_deck_objects (deck_map s)))"
proof (intro conjI impI)
  assume h: "dict_get d ''name'' = JStr [] \<and> dict_get d ''id'' = JStr i \<and> i \<noteq> []"
  then obtain p where re: "snd (read_entry (JObj d)) = Inr (Some \<lparr>id' = i, name = [], parent_id = p\<rparr>)"
    by (auto simp: read_entry_def Let_def py_or_def)
  have "\<exists>v. map_of (deck_map s) [] = Some v
             \<and> \<lparr>id' = i, name = [], parent_id = p\<rparr> \<in> set (decks_in v)
             \<and> get_deck (self\<lparr>decks := deck_map s\<rparr>) []
                 \<noteq> Inl (ValueError (NoDeckWithName [] (map fst (deck_map s))))"
    if "JObj d \<in> set l \<and> build_deck_map l = Inr s"
  proof -
    from that re have "\<lparr>id' = i, name = [], parent_id = p\<rparr> \<in> set (listed_decks l)"
      by (auto simp: listed_decks_mem)
    from grouped_named_found[OF build_deck_map_grouped this] that
    obtain v where v: "map_of (deck_map s) [] = Some v"
        "\<lparr>id' = i, name = [], parent_id = p\<rparr> \<in> set (decks_in v)"
      by auto
    then have "get_deck (self\<lparr>decks := deck_map s\<rparr>) []
                 \<noteq> Inl (ValueError (NoDeckWithName [] (map fst (deck_map s))))"
      by (cases v) (simp_all add: get_deck_def)
    with v show ?thesis by blast
  qed
  with re show "\<exists>p. snd (read_entry (JObj d)) = Inr (Some \<lparr>id' = i, name = [], parent_id = p\<rparr>)
           \<and> (JObj d \<in> set l \<and> build_deck_map l = Inr s \<longrightarrow>
                (\<exists>v. map_of (deck_map s) [] = Some v
                     \<and> \<lparr>id' = i, name = [], parent_id = p\<rparr> \<in> set (decks_in v)
                     \<and> get_deck (self\<lparr>decks := deck_map s\<rparr>) []
                         \<noteq> Inl (ValueError (NoDeckWithName [] (map fst (deck_map s))))))"
    by blast
next
  assume h: "dict_get d ''id'' = JStr [] \<and> dict_get d ''_id'' = JNull"
  then have "\<not> truthy (py_or (dict_get d ''id'') (dict_get d ''_id'')) \<or> dict_get d ''name'' = JNull"
    by (simp add: py_or_def)
  from read_entry_missing[OF this] obtain lines where
    re: "read_entry (JObj d) = (lines @ [WarnMissingIdOrName (JObj d)], Inr None)" by blast
  then show "snd (read_entry (JObj d)) = Inr None" by simp
  from skipped_entry_no_effect[OF re, of xs ys]
  show "case build_deck_map (xs @ ys) of
              Inl e \<Rightarrow> build_deck_map (xs @ JObj d # ys) = Inl e
            | Inr t \<Rightarrow>
               (\<exists>t'. build_deck_map (xs @ JObj d # ys) = Inr t'
                    \<and> WarnMissingIdOrName (JObj d) \<in> set (warnings t')
                    \<and> deck_map t' = deck_map t \<and> count t' = count t)"
    by (auto split: sum.splits)
next
  assume b: "build_deck_map l = Inr s"
  from grouped_all_decks_listed[OF build_deck_map_grouped[OF b]]
  have "\<forall>dk \<in> set (all_deck_objects (deck_map s)). dk \<in> set (listed_decks l)" by blast
  then show "list_all (\<lambda>dk. id' dk \<noteq> []) (all_deck_objects (deck_map s))"
    by (auto simp: list_all_iff listed_decks_mem dest: read_entry_id_not_empty)
qed

theorem empty_name_kept_empty_id_skipped_witness:
  "(\<exists>p v. snd (read_entry (JObj [(''id'', JStr ''e1''), (''name'', JStr [])]))
            = Inr (Some \<lparr>id' = ''e1'', name = [], parent_id = p\<rparr>)
         \<and> map_of [([], One \<lparr>id' = ''e1'', name = [], parent_id = None\<rparr>),
                    (''French'', One \<lparr>id' = ''d2'', name = ''French'', parent_id = None\<rparr>)] []
             = Some v
         \<and> \<lparr>id' = ''e1'', name = [], parent_id = p\<rparr> \<in> set (decks_in v))
   \<and> get_deck \<lparr>auth = (''key'', []),
                 decks = [([], One \<lparr>id' = ''e1'', name = [], parent_id = None\<rparr>),
                          (''French'', One \<lparr>id' = ''d2'', name = ''French'', parent_id = None\<rparr>)]\<rparr> []
        = Inr \<lparr>id' = ''e1'', name = [], parent_id = None\<rparr>
   \<and> snd (read_entry (JObj [(''id'', JStr []), (''name'', JStr ''Ghost'')])) = Inr None
   \<and> (\<exists>t'. build_deck_map ([deck_entry ''d1'' ''Spanish'']
                @ JObj [(''id'', JStr []), (''name'', JStr ''Ghost'')] # []) = Inr t'
          \<and> deck_map t' = [(''Spanish'', One \<lparr>id' = ''d1'', name = ''Spanish'', parent_id = None\<rparr>)]
          \<and> count t' = 1)
   \<and> list_all (\<lambda>dk. id' dk \<noteq> [])
        (all_deck_objects [([], One \<lparr>id' = ''e1'', name = [], parent_id = None\<rparr>),
                           (''French'', One \<lparr>id' = ''d2'', name = ''French'', parent_id = None\<rparr>)])"
proof -
  let ?dE = "[(''id'', JStr ''e1''), (''name'', JStr [])]"
  let ?dG = "[(''id'', JStr []), (''name'', JStr ''Ghost'')]"
  let ?l = "[JObj ?dE, deck_entry ''d2'' ''French'']"
  let ?cache = "[([], One \<lparr>id' = ''e1'', name = [], parent_id = None\<rparr>),
                 (''French'', One \<lparr>id' = ''d2'', name = ''French'', parent_id = None\<rparr>)]"
  let ?s = "\<lparr>deck_map = ?cache, count = 2, warnings = []\<rparr>"
  let ?t = "\<lparr>deck_map = [(''Spanish'', One \<lparr>id' = ''d1'', name = ''Spanish'', parent_id = None\<rparr>)],
             count = 1, warnings = []\<rparr>"
  have h1: "dict_get ?dE ''name'' = JStr [] \<and> dict_get ?dE ''id'' = JStr ''e1'' \<and> ''e1'' \<noteq> []"
    by (simp add: dict_get_def)
  have h2: "dict_get ?dG ''id'' = JStr [] \<and> dict_get ?dG ''_id'' = JNull"
    by (simp add: dict_get_def)
  have e1: "build_deck_map ?l = Inr ?s" by code_simp
  have e2: "build_deck_map ([deck_entry ''d1'' ''Spanish''] @ []) = Inr ?t" by code_simp
  have mem: "JObj ?dE \<in> set ?l" by simp
  note inst = empty_name_kept_empty_id_skipped[where l = ?l and s = ?s
      and xs = "[deck_entry ''d1'' ''Spanish'']" and ys = "[]"
      and self = "\<lparr>auth = (''key'', []), decks = []\<rparr>"]
  from inst[where d = ?dE and i = "''e1''"] h1 mem e1
  have a: "\<exists>p v. snd (read_entry (JObj ?dE)) = Inr (Some \<lparr>id' = ''e1'', name = [], parent_id = p\<rparr>)
         \<and> map_of ?cache [] = Some v
         \<and> \<lparr>id' = ''e1'', name = [], parent_id = p\<rparr> \<in> set (decks_in v)"
    and c: "list_all (\<lambda>dk. id' dk \<noteq> []) (all_deck_objects ?cache)"
    by auto
  from inst[where d = ?dG and i = "''e1''"] h2 e2
  have b: "snd (read_entry (JObj ?dG)) = Inr None
     \<and> (\<exists>t'. build_deck_map ([deck_entry ''d1'' ''Spanish''] @ JObj ?dG # []) = Inr t'
          \<and> deck_map t' = deck_map ?t \<and> count t' = count ?t)"
    by auto
  have g: "get_deck \<lparr>auth = (''key'', []), decks = ?cache\<rparr> []
             = Inr \<lparr>id' = ''e1'', name = [], parent_id = None\<rparr>"
    by code_simp
  from a b c g show ?thesis by simp
qed

section \<open>Resolving a name or an id\<close>

lemma find_id_Some:
  assumes "\<exists>dk \<in> set ds. id' dk = s"
  shows "\<exists>found. find (\<lambda>deck. id' deck = s) ds = Some found \<and> id' found = s"
proof (cases "find (\<lambda>deck. id' deck = s) ds")
  case None
  with assms show ?thesis by (auto simp: find_None_iff)
next
  case (Some found)
  then show ?thesis by (auto simp: find_Some_iff)
qed

lemma resolve_by_name:
  assumes "map_of (decks self) s = Some (One d)"
  shows "resolve_deck self s = Inr (id' d, Some ''name'')"
  using assms by (simp add: resolve_deck_def)

lemma resolve_ambiguous:
  assumes "map_of (decks self) s = Some (Many l)"
  shows "resolve_deck self s = Inl (ValueError (MatchesMultipleDecks s (map id' l)))"
  using assms by (simp add: resolve_deck_def)

lemma resolve_by_id:
  assumes "map_of (decks self) s = None"
    and "\<exists>dk \<in> set (all_deck_objects (decks self)). id' dk = s"
  shows "resolve_deck self s = Inr (s, Some ''id'')"
proof -
  from find_id_Some[OF assms(2)] obtain found where
    "find (\<lambda>deck. id' deck = s) (all_deck_objects (decks self)) = Some found" "id' found = s"
    by blast
  with assms(1) show ?thesis by (simp add: resolve_deck_def)
qed

lemma resolve_not_found:
  assumes "map_of (decks self) s = None"
    and "\<forall>dk \<in> set (all_deck_objects (decks self)). id' dk \<noteq> s"
  shows "resolve_deck self s
           = Inl (ValueError (NoDeckWithNameOrID s (length (map fst (decks self)))
                    (length (all_deck_objects (decks self)))))"
proof -
  from assms(2) have "find (\<lambda>deck. id' deck = s) (all_deck_objects (decks self)) = None"
    by (auto simp: find_None_iff)
  with assms(1) show ?thesis by (simp add: resolve_deck_def)
qed

lemma get_cards_resolution_fails:
  assumes "resolve_deck self s = Inl e"
  shows "get_cards tr self s condensed wld = (Inl e, wld)"
  using assms by (simp add: get_cards_def)

text \<open>
  Claim C1. For every cache and every input string \<open>s\<close>, the resolution at the head of
  \<open>get_cards\<close> goes in this order. If \<open>s\<close> is a cached name that maps to one deck, the
  id of that deck is the target, resolved by name, and \<open>get_cards\<close> requests the cards
  of that id. If \<open>s\<close> is a cached name that maps to
  a list of decks, the resolution fails with the error that lists their ids, whether or
  not some deck has the id \<open>s\<close>, and \<open>get_cards\<close> raises it with no request made.
  Otherwise, if some cached deck has the id \<open>s\<close>, the target is \<open>s\<close>, resolved by id,
  and \<open>get_cards\<close> requests the cards of that id.
  Otherwise the resolution fails with the error that states the number of names and the
  number of ids checked, and \<open>get_cards\<close> raises it with no request made.
\<close>

theorem resolution_order:
  "(map_of (decks self) s = Some (One d) \<longrightarrow>
      resolve_deck self s = Inr (id' d, Some ''name'')
      \<and> get_cards tr self s condensed wld
          = fetch_cards tr s (id' d) (Some ''name'') condensed wld)
   \<and> (map_of (decks self) s = Some (Many l) \<longrightarrow>
        resolve_deck self s = Inl (ValueError (MatchesMultipleDecks s (map id' l)))
        \<and> get_cards tr self s condensed wld
            = (Inl (ValueError (MatchesMultipleDecks s (map id' l))), wld))
   \<and> (map_of (decks self) s = None \<and> (\<exists>dk \<in> set (all_deck_objects (decks self)). id' dk = s) \<longrightarrow>
        resolve_deck self s = Inr (s, Some ''id'')
        \<and> get_cards tr self s condensed wld = fetch_cards tr s s (Some ''id'') condensed wld)
   \<and> (map_of (decks self) s = None \<and> (\<forall>dk \<in> set (all_deck_objects (decks self)). id' dk \<noteq> s) \<longrightarrow>
        resolve_deck self s
          = Inl (ValueError (NoDeckWithNameOrID s (length (map fst (decks self)))
                   (length (all_deck_objects (decks self)))))
        \<and> get_cards tr self s condensed wld
            = (Inl (ValueError (NoDeckWithNameOrID s (length (map fst (decks self)))
                      (length (all_deck_objects (decks self))))), wld))"
proof (intro conjI impI)
  assume "map_of (decks self) s = Some (One d)"
  then show r: "resolve_deck self s = Inr (id' d, Some ''name'')" by (rule resolve_by_name)
  show "get_cards tr self s condensed wld = fetch_cards tr s (id' d) (Some ''name'') condensed wld"
    by (simp add: get_cards_def r)
next
  assume a: "map_of (decks self) s = Some (Many l)"
  show r: "resolve_deck self s = Inl (ValueError (MatchesMultipleDecks s (map id' l)))"
    by (rule resolve_ambiguous[OF a])
  show "get_cards tr self s condensed wld
          = (Inl (ValueError (MatchesMultipleDecks s (map id' l))), wld)"
    by (rule get_cards_resolution_fails[OF r])
next
  assume "map_of (decks self) s = None \<and> (\<exists>dk \<in> set (all_deck_objects (decks self)). id' dk = s)"
  then show r: "resolve_deck self s = Inr (s, Some ''id'')" by (simp add: resolve_by_id)
  show "get_cards tr self s condensed wld = fetch_cards tr s s (Some ''id'') condensed wld"
    by (simp add: get_cards_def r)
next
  assume a: "map_of (decks self) s = None
               \<and> (\<forall>dk \<in> set (all_deck_objects (decks self)). id' dk \<noteq> s)"
  show r: "resolve_deck self s
          = Inl (ValueError (NoDeckWithNameOrID s (length (map fst (decks self)))
                   (length (all_deck_objects (decks self)))))"
    using a by (simp add: resolve_not_found)
  show "get_cards tr self s condensed wld
            = (Inl (ValueError (NoDeckWithNameOrID s (length (map fst (decks self)))
                      (length (all_deck_objects (decks self))))), wld)"
    by (rule get_cards_resolution_fails[OF r])
qed

theorem resolution_order_witness:
  "resolve_deck api3 ''French'' = Inr (''d2'', Some ''name'')
   \<and> get_cards recording api3 ''French'' True \<lparr>net = [], stdout = []\<rparr>
       = (Inr (CondensedCards []),
          \<lparr>net = [(''GET'', ''https://app.mochi.cards/api/cards?deck-id=d2'')], stdout = []\<rparr>)
   \<and> resolve_deck api3 ''Spanish'' = Inl (ValueError (MatchesMultipleDecks ''Spanish'' [''d1'', ''d3'']))
   \<and> get_cards recording api3 ''Spanish'' True \<lparr>net = [], stdout = []\<rparr>
       = (Inl (ValueError (MatchesMultipleDecks ''Spanish'' [''d1'', ''d3''])),
          \<lparr>net = [], stdout = []\<rparr>)
   \<and> resolve_deck api3 ''d3'' = Inr (''d3'', Some ''id'')
   \<and> get_cards recording api3 ''d3'' True \<lparr>net = [], stdout = []\<rparr>
       = (Inr (CondensedCards []),
          \<lparr>net = [(''GET'', ''https://app.mochi.cards/api/cards?deck-id=d3'')], stdout = []\<rparr>)
   \<and> resolve_deck api3 ''Latin'' = Inl (ValueError (NoDeckWithNameOrID ''Latin'' 2 3))
   \<and> get_cards recording api3 ''Latin'' True \<lparr>net = [], stdout = []\<rparr>
       = (Inl (ValueError (NoDeckWithNameOrID ''Latin'' 2 3)), \<lparr>net = [], stdout = []\<rparr>)"
proof -
  let ?d1 = "\<lparr>id' = ''d1'', name = ''Spanish'', parent_id = None\<rparr>"
  let ?d2 = "\<lparr>id' = ''d2'', name = ''French'', parent_id = None\<rparr>"
  let ?d3 = "\<lparr>id' = ''d3'', name = ''Spanish'', parent_id = None\<rparr>"
  let ?w = "\<lparr>net = [], stdout = []\<rparr> :: ((string \<times> string) list) world"
  have all: "all_deck_objects (decks api3) = [?d1, ?d3, ?d2]"
    by (simp add: api3_def cache3_def all_deck_objects_def)
  have keys: "map fst (decks api3) = [''Spanish'', ''French'']"
    by (simp add: api3_def cache3_def)
  have n1: "map_of (decks api3) ''French'' = Some (One ?d2)"
    by (simp add: api3_def cache3_def)
  have n2: "map_of (decks api3) ''Spanish'' = Some (Many [?d1, ?d3])"
    by (simp add: api3_def cache3_def)
  have n3: "map_of (decks api3) ''d3'' = None
              \<and> (\<exists>dk \<in> set (all_deck_objects (decks api3)). id' dk = ''d3'')"
    unfolding all by (simp add: api3_def cache3_def)
  have n4: "map_of (decks api3) ''Latin'' = None
              \<and> (\<forall>dk \<in> set (all_deck_objects (decks api3)). id' dk \<noteq> ''Latin'')"
    unfolding all by (simp add: api3_def cache3_def)
  have f1: "fetch_cards recording ''French'' ''d2'' (Some ''name'') True ?w
              = (Inr (CondensedCards []),
                 \<lparr>net = [(''GET'', ''https://app.mochi.cards/api/cards?deck-id=d2'')], stdout = []\<rparr>)"
    by code_simp
  have f3: "fetch_cards recording ''d3'' ''d3'' (Some ''id'') True ?w
              = (Inr (CondensedCards []),
                 \<lparr>net = [(''GET'', ''https://app.mochi.cards/api/cards?deck-id=d3'')], stdout = []\<rparr>)"
    by code_simp
  note inst = resolution_order[where self = api3 and tr = recording and condensed = True
      and wld = ?w]
  from n1 inst[where s = "''French''" and d = ?d2 and l = "[]"] f1
  have a: "resolve_deck api3 ''French'' = Inr (''d2'', Some ''name'')
     \<and> get_cards recording api3 ''French'' True ?w
       = (Inr (CondensedCards []),
          \<lparr>net = [(''GET'', ''https://app.mochi.cards/api/cards?deck-id=d2'')], stdout = []\<rparr>)"
    by simp
  from n2 inst[where s = "''Spanish''" and d = ?d2 and l = "[?d1, ?d3]"]
  have b: "resolve_deck api3 ''Spanish'' = Inl (ValueError (MatchesMultipleDecks ''Spanish'' [''d1'', ''d3'']))
     \<and> get_cards recording api3 ''Spanish'' True ?w
       = (Inl (ValueError (MatchesMultipleDecks ''Spanish'' [''d1'', ''d3''])), ?w)"
    by simp
  from n3 inst[where s = "''d3''" and d = ?d2 and l = "[]"] f3
  have c: "resolve_deck api3 ''d3'' = Inr (''d3'', Some ''id'')
     \<and> get_cards recording api3 ''d3'' True ?w
       = (Inr (CondensedCards []),
          \<lparr>net = [(''GET'', ''https://app.mochi.cards/api/cards?deck-id=d3'')], stdout = []\<rparr>)"
    by simp
  from n4 inst[where s = "''Latin''" and d = ?d2 and l = "[]"]
  have d: "resolve_deck api3 ''Latin'' = Inl (ValueError (NoDeckWithNameOrID ''Latin'' 2 3))
     \<and> get_cards recording api3 ''Latin'' True ?w
       = (Inl (ValueError (NoDeckWithNameOrID ''Latin'' 2 3)), ?w)"
    unfolding all keys by simp
  from a b c d show ?thesis by blast
qed

section \<open>The errors of a lookup\<close>

text \<open>
  Claim C3, as stated, at the cache with two decks named Spanish and one named French:
  looking up the ambiguous name Spanish and the absent name Latin raise exceptions of one
  and the same class, \<open>ValueError\<close>, in \<open>get_deck\<close> and in the resolution alike; the
  ids of the colliding decks are an argument of the message only.
\<close>

theorem ambiguity_same_class_counterexample:
  "get_deck api3 ''Spanish'' = Inl (ValueError (MultipleDecksWithName ''Spanish'' [''d1'', ''d3'']))
   \<and> get_deck api3 ''Latin'' = Inl (ValueError (NoDeckWithName ''Latin'' [''Spanish'', ''French'']))
   \<and> raised_class (get_deck api3 ''Spanish'') = raised_class (get_deck api3 ''Latin'')
   \<and> raised_class (resolve_deck api3 ''Spanish'') = raised_class (resolve_deck api3 ''Latin'')"
  by (simp add: get_deck_def resolve_deck_def api3_def cache3_def raised_class_def
      all_deck_objects_def)

text \<open>
  Claim C3, amended. For every cache in which a name maps to a list of decks, looking the
  name up with \<open>get_deck\<close> and resolving it both raise \<open>ValueError\<close> with a message
  that lists the ids of the decks of the list; looking up a name that is not a key raises
  \<open>ValueError\<close> as well, with the message that lists the cached names. The two failures
  have the same class and differ in the message.
\<close>

theorem ambiguity_is_value_error:
  "(map_of (decks self) nm = Some (Many l) \<longrightarrow>
      get_deck self nm = Inl (ValueError (MultipleDecksWithName nm (map id' l)))
      \<and> resolve_deck self nm = Inl (ValueError (MatchesMultipleDecks nm (map id' l)))
      \<and> raised_class (get_deck self nm) = Some ValueError_class
      \<and> raised_class (resolve_deck self nm) = Some ValueError_class)
   \<and> (map_of (decks self) nm = None \<longrightarrow>
        get_deck self nm = Inl (ValueError (NoDeckWithName nm (map fst (decks self))))
        \<and> raised_class (get_deck self nm) = Some ValueError_class)"
  by (simp add: get_deck_def resolve_ambiguous raised_class_def)

theorem ambiguity_is_value_error_witness:
  "get_deck api3 ''Spanish'' = Inl (ValueError (MultipleDecksWithName ''Spanish'' [''d1'', ''d3'']))
   \<and> resolve_deck api3 ''Spanish'' = Inl (ValueError (MatchesMultipleDecks ''Spanish'' [''d1'', ''d3'']))
   \<and> raised_class (get_deck api3 ''Spanish'') = Some ValueError_class
   \<and> get_deck api3 ''Latin'' = Inl (ValueError (NoDeckWithName ''Latin'' [''Spanish'', ''French'']))
   \<and> raised_class (get_deck api3 ''Latin'') = Some ValueError_class"
proof -
  have n2: "map_of (decks api3) ''Spanish''
              = Some (Many [\<lparr>id' = ''d1'', name = ''Spanish'', parent_id = None\<rparr>,
                            \<lparr>id' = ''d3'', name = ''Spanish'', parent_id = None\<rparr>])"
    by (simp add: api3_def cache3_def)
  have n4: "map_of (decks api3) ''Latin'' = None"
    by (simp add: api3_def cache3_def)
  have keys: "map fst (decks api3) = [''Spanish'', ''French'']"
    by (simp add: api3_def cache3_def)
  from n2 ambiguity_is_value_error[of api3 "''Spanish''"
      "[\<lparr>id' = ''d1'', name = ''Spanish'', parent_id = None\<rparr>,
        \<lparr>id' = ''d3'', name = ''Spanish'', parent_id = None\<rparr>]"]
  have a: "get_deck api3 ''Spanish'' = Inl (ValueError (MultipleDecksWithName ''Spanish'' [''d1'', ''d3'']))
     \<and> resolve_deck api3 ''Spanish'' = Inl (ValueError (MatchesMultipleDecks ''Spanish'' [''d1'', ''d3'']))
     \<and> raised_class (get_deck api3 ''Spanish'') = Some ValueError_class"
    by (simp add: raised_class_def)
  from n4 ambiguity_is_value_error[of api3 "''Latin''"]
  have b: "get_deck api3 ''Latin'' = Inl (ValueError (NoDeckWithName ''Latin'' [''Spanish'', ''French'']))
     \<and> raised_class (get_deck api3 ''Latin'') = Some ValueError_class"
    unfolding keys by (simp add: raised_class_def)
  from a b show ?thesis by blast
qed

section \<open>Refreshing\<close>

text \<open>
  Claim C6. \<open>refresh_decks\<close> replaces the cache as a whole. Whatever the service
  answers, after the call either the load failed, the error is raised and the object is
  as it was, or the load returned a map and the object is as it was but for its cache,
  which is that map. The map is built before the assignment and from the listing alone.
\<close>

theorem refresh_replaces_whole:
  "refresh_decks tr self wld = (r, self', wld') \<Longrightarrow>
     (\<exists>e. r = Inl e \<and> load_decks_internal tr (print_line RefreshingCache wld) = (Inl e, wld')
           \<and> self' = self)
     \<or> (\<exists>m. r = Inr () \<and> load_decks_internal tr (print_line RefreshingCache wld) = (Inr m, wld')
            \<and> self' = self\<lparr>decks := m\<rparr>)"
proof -
  assume a: "refresh_decks tr self wld = (r, self', wld')"
  obtain lr w1 where l: "load_decks_internal tr (print_line RefreshingCache wld) = (lr, w1)"
    by (cases "load_decks_internal tr (print_line RefreshingCache wld)")
  show ?thesis
  proof (cases lr)
    case (Inl e)
    with a l show ?thesis by (auto simp: refresh_decks_def)
  next
    case (Inr m)
    with a l show ?thesis by (auto simp: refresh_decks_def)
  qed
qed

theorem refresh_replaces_whole_witness:
  "load_decks_internal scripted (print_line RefreshingCache (start [Timeout]))
     = (Inl (MochiAPIError (FailedToLoadDecks (MochiAPIError
               (RequestTimedOut ''GET'' ''https://app.mochi.cards/api/decks'') None None)) None None),
        \<lparr>net = [], stdout = [RefreshingCache, LoadingDecks]\<rparr>)
   \<and> fst (snd (refresh_decks scripted api3 (start [Timeout]))) = api3
   \<and> load_decks_internal scripted (print_line RefreshingCache
         (start [ok_json (JObj [(''docs'', JList [deck_entry ''d7'' ''Latin''])])]))
     = (Inr [(''Latin'', One \<lparr>id' = ''d7'', name = ''Latin'', parent_id = None\<rparr>)],
        \<lparr>net = [], stdout = [RefreshingCache, LoadingDecks, LoadedDecks 1]\<rparr>)
   \<and> fst (snd (refresh_decks scripted api3
         (start [ok_json (JObj [(''docs'', JList [deck_entry ''d7'' ''Latin''])])])))
     = api3\<lparr>decks := [(''Latin'', One \<lparr>id' = ''d7'', name = ''Latin'', parent_id = None\<rparr>)]\<rparr>"
proof -
  let ?latin = "[(''Latin'', One \<lparr>id' = ''d7'', name = ''Latin'', parent_id = None\<rparr>)]"
  have f: "refresh_decks scripted api3 (start [Timeout])
             = (Inl (MochiAPIError (FailedToLoadDecks (MochiAPIError
                  (RequestTimedOut ''GET'' ''https://app.mochi.cards/api/decks'') None None)) None None),
                api3, \<lparr>net = [], stdout = [RefreshingCache, LoadingDecks]\<rparr>)"
    by code_simp
  have g: "refresh_decks scripted api3
             (start [ok_json (JObj [(''docs'', JList [deck_entry ''d7'' ''Latin''])])])
             = (Inr (), api3\<lparr>decks := ?latin\<rparr>,
                \<lparr>net = [], stdout = [RefreshingCache, LoadingDecks, LoadedDecks 1]\<rparr>)"
    by code_simp
  from refresh_replaces_whole[OF f]
  have a: "load_decks_internal scripted (print_line RefreshingCache (start [Timeout]))
     = (Inl (MochiAPIError (FailedToLoadDecks (MochiAPIError
               (RequestTimedOut ''GET'' ''https://app.mochi.cards/api/decks'') None None)) None None),
        \<lparr>net = [], stdout = [RefreshingCache, LoadingDecks]\<rparr>)"
    by auto
  from refresh_replaces_whole[OF g]
  obtain m where m: "load_decks_internal scripted (print_line RefreshingCache
         (start [ok_json (JObj [(''docs'', JList [deck_entry ''d7'' ''Latin''])])]))
       = (Inr m, \<lparr>net = [], stdout = [RefreshingCache, LoadingDecks, LoadedDecks 1]\<rparr>)"
      and eq: "api3\<lparr>decks := ?latin\<rparr> = api3\<lparr>decks := m\<rparr>"
    by auto
  from eq have "decks (api3\<lparr>decks := ?latin\<rparr>) = decks (api3\<lparr>decks := m\<rparr>)" by simp
  then have "m = ?latin" by simp
  with m a f g show ?thesis by simp
qed

section \<open>Creating a deck whose lookup fails\<close>

text \<open>
  Claim C7. When the request of \<open>create_deck\<close> succeeds with a response that passes its
  checks (a dict with an id and a name), the refresh that follows succeeds, and the lookup
  of the returned name in the refreshed cache fails, \<open>create_deck\<close> does not fail: it
  returns the deck made of the id, the name and the parent of the response, and the
  object holds the refreshed cache. The id and the name of the response are strings and
  its parent a string or absent, as \<open>Deck\<close> declares them.
\<close>

theorem create_deck_falls_back:
  assumes "make_request tr ''POST'' ''decks'' (Some (create_payload nm parent))
             (print_line (AttemptCreateDeck nm) wld) = (Inr (JObj d), w1)"
    and "py_or (dict_get d ''id'') (dict_get d ''_id'') = JStr i" and "i \<noteq> []"
    and "dict_get d ''name'' = JStr n"
    and "py_or (py_or (dict_get d ''parent-id'') (dict_get d ''parent_id'')) (dict_get d ''parent'')
           = pj"
    and "pj = JNull \<or> is_str pj"
    and "refresh_decks tr self (print_line (CreatedRefreshing (JStr i) n) w1) = (Inr (), self', w2)"
    and "get_deck self' n = Inl e"
  shows "create_deck tr self nm parent wld
           = (Inr \<lparr>id' = i, name = n, parent_id = (case pj of JStr p \<Rightarrow> Some p | _ \<Rightarrow> None)\<rparr>,
              self', print_line (WarnNotRetrieved n e) (print_line CacheRefreshed w2))"
proof -
  from assms(8) obtain m where e: "e = ValueError m"
    by (auto simp: get_deck_def split: if_splits deck_or_list.splits)
  from assms(6) have fb: "fallback_deck (JStr i) n pj
      = Inr \<lparr>id' = i, name = n, parent_id = (case pj of JStr p \<Rightarrow> Some p | _ \<Rightarrow> None)\<rparr>"
    by (cases pj) (simp_all add: fallback_deck_def)
  from assms(1-5,7) assms(8)[unfolded e] fb show ?thesis
    unfolding e by (simp add: create_deck_def)
qed

theorem create_deck_falls_back_witness:
  "create_deck scripted api3 ''Spanish'' (Some ''d2'') (start [ok_json (JObj created7), listed7])
     = (Inr \<lparr>id' = ''d9'', name = ''Spanish'', parent_id = Some ''d2''\<rparr>,
        api3\<lparr>decks := cache7\<rparr>,
        \<lparr>net = [],
         stdout = [AttemptCreateDeck ''Spanish'', CreatedRefreshing (JStr ''d9'') ''Spanish'',
                   RefreshingCache, LoadingDecks] @ warnings3
                  @ [LoadedDecks 4, CacheRefreshed,
                     WarnNotRetrieved ''Spanish''
                       (ValueError (MultipleDecksWithName ''Spanish'' [''d1'', ''d3'', ''d9'']))]\<rparr>)"
proof -
  let ?w1 = "\<lparr>net = [listed7], stdout = [AttemptCreateDeck ''Spanish'']\<rparr>"
  let ?w2 = "\<lparr>net = [],
              stdout = [AttemptCreateDeck ''Spanish'', CreatedRefreshing (JStr ''d9'') ''Spanish'',
                        RefreshingCache, LoadingDecks] @ warnings3 @ [LoadedDecks 4]\<rparr>"
  have p1: "make_request scripted ''POST'' ''decks'' (Some (create_payload ''Spanish'' (Some ''d2'')))
              (print_line (AttemptCreateDeck ''Spanish'') (start [ok_json (JObj created7), listed7]))
            = (Inr (JObj created7), ?w1)"
    by code_simp
  have p2: "py_or (dict_get created7 ''id'') (dict_get created7 ''_id'') = JStr ''d9''"
    by code_simp
  have p3: "''d9'' \<noteq> []" by simp
  have p4: "dict_get created7 ''name'' = JStr ''Spanish''" by code_simp
  have p5: "py_or (py_or (dict_get created7 ''parent-id'') (dict_get created7 ''parent_id''))
              (dict_get created7 ''parent'') = JStr ''d2''"
    by code_simp
  have p6: "JStr ''d2'' = JNull \<or> is_str (JStr ''d2'')" by simp
  have p7: "refresh_decks scripted api3 (print_line (CreatedRefreshing (JStr ''d9'') ''Spanish'') ?w1)
              = (Inr (), api3\<lparr>decks := cache7\<rparr>, ?w2)"
    by code_simp
  have p8: "get_deck (api3\<lparr>decks := cache7\<rparr>) ''Spanish''
              = Inl (ValueError (MultipleDecksWithName ''Spanish'' [''d1'', ''d3'', ''d9'']))"
    by code_simp
  from create_deck_falls_back[OF p1 p2 p3 p4 p5 p6 p7 p8] show ?thesis
    by (simp add: print_line_def)
qed

section \<open>Deleting what is not there\<close>

text \<open>
  Whatever the service answers, an error of \<open>_make_request\<close> carries no status code and
  no response data: the handler of \<open>HTTPError\<close> reads the status code only when the
  response is truthy, and a response that made \<open>raise_for_status\<close> raise is falsy.
\<close>

lemma http_error_no_status:
  assumes "raises_for_status r"
  shows "\<exists>msg. http_error method url r = MochiAPIError msg None None"
  using assms by (simp add: http_error_def response_bool_def Let_def split: prod.splits)

lemma make_request_no_status:
  assumes "make_request tr method endpoint data wld = (Inl e, wld')"
  shows "\<exists>msg. e = MochiAPIError msg None None"
proof -
  let ?url = "rev (dropWhile (\<lambda>c. c = slash) (rev base_url)) @ [slash]
                @ dropWhile (\<lambda>c. c = slash) endpoint"
  obtain outcome n where t: "tr method ?url data (net wld) = (outcome, n)"
    by (cases "tr method ?url data (net wld)")
  show ?thesis
  proof (cases outcome)
    case (Responded r)
    show ?thesis
    proof (cases "raises_for_status r")
      case True
      from http_error_no_status[OF True, of "method" ?url] assms t Responded True
      show ?thesis by (auto simp: make_request_def Let_def)
    next
      case False
      with assms t Responded show ?thesis
        by (auto simp: make_request_def Let_def split: if_splits option.splits)
    qed
  next
    case Timeout
    with assms t show ?thesis by (auto simp: make_request_def Let_def)
  next
    case RequestException
    with assms t show ?thesis by (auto simp: make_request_def Let_def)
  qed
qed

text \<open>Hence \<open>Deck.delete_card\<close> never raises its error for status 404.\<close>

lemma delete_card_never_not_found:
  "fst (delete_card tr card_id wld) \<noteq> Inl (MochiAPIError (NoCardFoundWithID card_id) sc rd)"
proof -
  obtain r w1 where m: "make_request tr ''DELETE'' (''cards/'' @ card_id) None
                          (print_line (AttemptDeleteCard card_id) wld) = (r, w1)"
    by (cases "make_request tr ''DELETE'' (''cards/'' @ card_id) None
                 (print_line (AttemptDeleteCard card_id) wld)")
  show ?thesis
  proof (cases r)
    case (Inl e)
    with make_request_no_status[of tr _ _ _ _ e w1] m obtain msg where
      "e = MochiAPIError msg None None" by blast
    with Inl m show ?thesis by (simp add: delete_card_def)
  next
    case (Inr j)
    with m show ?thesis by (simp add: delete_card_def)
  qed
qed

text \<open>
  Claim C9, on the code. The service answers \<open>DELETE decks/gone\<close> and
  \<open>DELETE cards/gone\<close> with status 404. \<open>delete_deck\<close> and \<open>delete_card\<close> raise the
  error of the generic branch, with no status code: not the error that says no deck or no
  card was found with that id, and not the status 404.
\<close>

theorem delete_404_reported_as_generic:
  "fst (delete_deck scripted api3 ''gone'' (start [status_only 404]))
     = Inl (MochiAPIError
              (FailedToDeleteDeck ''gone''
                 (MochiAPIError (HTTPErrorCalling ''DELETE'' ''https://app.mochi.cards/api/decks/gone''
                                   (DetailText ''Not Found'')) None None))
              None None)
   \<and> fst (delete_card scripted ''gone'' (start [status_only 404]))
     = Inl (MochiAPIError
              (FailedToDeleteCard ''gone''
                 (MochiAPIError (HTTPErrorCalling ''DELETE'' ''https://app.mochi.cards/api/cards/gone''
                                   (DetailText ''Not Found'')) None None))
              None None)"
  by code_simp

end
